theory Spec2Isabelle
  imports Main "HOL-Library.Multiset"
begin

section \<open>JavaScript objects and numbers\<close>

subsection \<open>Properties, own and inherited\<close>

text \<open>
  An object used as a dictionary is a map from property names to values: its own
  properties. Every such object of the program is built by an object literal, so its
  prototype is \<^verbatim>\<open>Object.prototype\<close>, and a read \<^verbatim>\<open>obj[k]\<close> of a name that is no own property
  finds the member of \<^verbatim>\<open>Object.prototype\<close> of that name, if there is one. The standard
  members are listed; each is a function, and the accessor \<^verbatim>\<open>__proto__\<close> returns the
  prototype object.
\<close>

definition Object_prototype_names :: "string list" where
  "Object_prototype_names =
     [''constructor'', ''__defineGetter__'', ''__defineSetter__'', ''hasOwnProperty'',
      ''__lookupGetter__'', ''__lookupSetter__'', ''isPrototypeOf'', ''propertyIsEnumerable'',
      ''toString'', ''valueOf'', ''__proto__'', ''toLocaleString'']"

definition inherited :: "string \<Rightarrow> bool" where
  "inherited k = (k \<in> set Object_prototype_names)"

text \<open>
  The test \<^verbatim>\<open>if (obj[k])\<close> on a dictionary whose own values are objects: an own value is
  truthy, an inherited member is truthy, and \<^verbatim>\<open>undefined\<close> is not.
\<close>

definition truthy_at :: "(string \<rightharpoonup> 'v) \<Rightarrow> string \<Rightarrow> bool" where
  "truthy_at obj k = (obj k \<noteq> None \<or> inherited k)"

text \<open>
  The assignment \<^verbatim>\<open>obj[k] = v\<close> writes the own property \<open>k\<close>. For the name \<^verbatim>\<open>__proto__\<close> on
  an object that has no own property of that name it calls the inherited setter, which
  sets the prototype and adds no own property. The spread \<^verbatim>\<open>{...a, ...b}\<close> copies the own
  properties of \<open>a\<close> and then those of \<open>b\<close>: it is \<open>a ++ b\<close>.
\<close>

definition assign_map :: "(string \<rightharpoonup> 'v) \<Rightarrow> string \<Rightarrow> 'v \<Rightarrow> (string \<rightharpoonup> 'v)" where
  "assign_map obj k v = (if k = ''__proto__'' \<and> obj k = None then obj else obj(k \<mapsto> v))"

text \<open>
  \<^verbatim>\<open>obj[key]\<close> with \<^verbatim>\<open>key = null\<close> reads the property named \<^verbatim>\<open>"null"\<close>.
\<close>

fun prop_key :: "string option \<Rightarrow> string" where
  "prop_key None = ''null''"
| "prop_key (Some k) = k"

subsection \<open>Numbers\<close>

text \<open>
  A score or a counter is a JavaScript number, a double. \<open>Num n\<close> is the double of the
  integer value \<open>n\<close>, and \<^verbatim>\<open>NaN\<close> is what \<^verbatim>\<open>undefined++\<close> yields; the fractional doubles
  and the infinities are left out. \<^verbatim>\<open>x++\<close> stores \<^verbatim>\<open>x + 1\<close>
  rounded to the nearest double, ties to the even significand; a double has 53
  significant bits. \<open>excess f a\<close> is the number of bits that the magnitude \<open>a\<close> has
  beyond 53 (the fuel 1024 is enough for every double), and \<open>round_double x\<close> rounds the
  integer \<open>x\<close> to a multiple of \<open>2 ^ e\<close> for that number \<open>e\<close>. Every integer of magnitude up
  to \<open>2 ^ 53\<close> is a double; \<open>2 ^ 53 + 1\<close> is not and rounds to \<open>2 ^ 53\<close>.
\<close>

fun excess :: "nat \<Rightarrow> int \<Rightarrow> nat" where
  "excess 0 a = 0"
| "excess (Suc f) a = (if a < 2 ^ 53 then 0 else Suc (excess f (a div 2)))"

definition round_double :: "int \<Rightarrow> int" where
  "round_double x =
     (let e = excess 1024 \<bar>x\<bar>; q = x div 2 ^ e; r = x mod 2 ^ e
      in if 2 * r < 2 ^ e then q * 2 ^ e
         else if 2 ^ e < 2 * r then (q + 1) * 2 ^ e
         else if even q then q * 2 ^ e
         else (q + 1) * 2 ^ e)"

datatype jsnum = Num int | NaN

fun incr :: "jsnum \<Rightarrow> jsnum" where
  "incr (Num n) = Num (round_double (n + 1))"
| "incr NaN = NaN"

subsection \<open>Array methods\<close>

text \<open>
  \<^verbatim>\<open>xs.splice(start, 1)\<close> on a copy: a negative start counts from the end, the start is
  clamped to the array, and one element is removed if there is one at the start.
\<close>

definition splice1 :: "'a list \<Rightarrow> int \<Rightarrow> 'a list" where
  "splice1 xs start =
     (let len = int (length xs);
          actualStart = (if start < 0 then max (len + start) 0 else min start len)
      in take (nat actualStart) xs @ drop (nat actualStart + 1) xs)"

text \<open>
  \<^verbatim>\<open>xs.findIndex(f)\<close>: the index of the first element that satisfies \<open>f\<close>, or \<open>-1\<close>.
\<close>

fun findIndex_from :: "('a \<Rightarrow> bool) \<Rightarrow> int \<Rightarrow> 'a list \<Rightarrow> int" where
  "findIndex_from f i [] = -1"
| "findIndex_from f i (x # xs) = (if f x then i else findIndex_from f (i + 1) xs)"

definition findIndex :: "('a \<Rightarrow> bool) \<Rightarrow> 'a list \<Rightarrow> int" where
  "findIndex f xs = findIndex_from f 0 xs"

text \<open>
  \<^verbatim>\<open>xs.filter((x, index) => f(x, index))\<close>, the callback reading the index too.
\<close>

fun filter_from :: "('a \<Rightarrow> int \<Rightarrow> bool) \<Rightarrow> int \<Rightarrow> 'a list \<Rightarrow> 'a list" where
  "filter_from f i [] = []"
| "filter_from f i (x # xs) =
     (if f x i then x # filter_from f (i + 1) xs else filter_from f (i + 1) xs)"

definition filter_indexed :: "('a \<Rightarrow> int \<Rightarrow> bool) \<Rightarrow> 'a list \<Rightarrow> 'a list" where
  "filter_indexed f xs = filter_from f 0 xs"

section \<open>The profile context (contexts/Profile.js)\<close>

text \<open>
  The context module normalises a raw item list (\<^verbatim>\<open>uniqueByName\<close>), generates the voting
  pairs (\<^verbatim>\<open>createPairs\<close>, \<^verbatim>\<open>createPairList\<close>) and holds a reducer with the two actions
  \<^verbatim>\<open>PROFILE/ADD\<close> and \<^verbatim>\<open>PROFILE/SET_CURRENT\<close>. Its types share names with those of the
  reducer module below; the ones of this module that clash carry the suffix \<open>0\<close>.
\<close>

subsection \<open>Data\<close>

text \<open>
  \<^verbatim>\<open>ComparisonItem\<close> is \<^verbatim>\<open>{name, image}\<close>; the image is \<^verbatim>\<open>undefined\<close> for a row without a
  separator. \<^verbatim>\<open>ProcessedComparisonItem\<close> adds \<^verbatim>\<open>id\<close> and \<^verbatim>\<open>score\<close>. The \<^verbatim>\<open>winner\<close> of a
  voting pair is \<^verbatim>\<open>false\<close> (here \<open>None\<close>) or a string.
\<close>

record ComparisonItem =
  item_name :: string
  item_image :: "string option"

record ProcessedComparisonItem =
  proc_name :: string
  proc_image :: "string option"
  proc_id :: string
  proc_score :: int

record VotingPair0 =
  left :: ProcessedComparisonItem
  right :: ProcessedComparisonItem
  winner :: "string option"

record ProfileItem0 =
  name0 :: string
  list0 :: "ProcessedComparisonItem list"
  dateTime0 :: int
  pairs0 :: "VotingPair0 list"
  voted :: "VotingPair0 list"

record ProfileState0 =
  currentProfile0 :: "string option"
  profiles0 :: "string \<rightharpoonup> ProfileItem0"

datatype Action0 =
    PROFILE_ADD string "ComparisonItem list"
  | PROFILE_SET_CURRENT string
  | OTHER string

datatype error0 = InvalidProfile0 string

subsection \<open>Objects with ordered keys\<close>

text \<open>
  \<^verbatim>\<open>uniqueByName\<close> reads the values of \<^verbatim>\<open>nameMap\<close> back with \<^verbatim>\<open>Object.values\<close>, so the
  order of its own properties matters: the object is a list of key and value in
  insertion order. An assignment replaces the value of a key that is there and appends
  a new key; an assignment to \<^verbatim>\<open>__proto__\<close> sets the prototype and adds no own property.
  \<^verbatim>\<open>Object.values\<close> lists the array indices first (the canonical decimal strings below
  \<open>2^32 - 1\<close>), in ascending numeric order, and then the other keys in insertion order.
\<close>

type_synonym 'v object = "(string \<times> 'v) list"

fun put :: "string \<Rightarrow> 'v \<Rightarrow> 'v object \<Rightarrow> 'v object" where
  "put k v [] = [(k, v)]"
| "put k v ((k', v') # ps) = (if k = k' then (k, v) # ps else (k', v') # put k v ps)"

definition assign :: "string \<Rightarrow> 'v \<Rightarrow> 'v object \<Rightarrow> 'v object" where
  "assign k v obj = (if k = ''__proto__'' then obj else put k v obj)"

definition digit :: "char \<Rightarrow> bool" where
  "digit c = (c \<in> set ''0123456789'')"

definition decimal :: "string \<Rightarrow> int" where
  "decimal s = foldl (\<lambda>n c. 10 * n + (of_char c - of_char (CHR ''0''))) 0 s"

definition array_index :: "string \<Rightarrow> bool" where
  "array_index s =
     (s \<noteq> [] \<and> list_all digit s \<and> (s = ''0'' \<or> hd s \<noteq> CHR ''0'') \<and> decimal s < 2 ^ 32 - 1)"

definition object_values :: "'v object \<Rightarrow> 'v list" where
  "object_values obj =
     map snd (sort_key (\<lambda>p. decimal (fst p)) (filter (\<lambda>p. array_index (fst p)) obj)
              @ filter (\<lambda>p. \<not> array_index (fst p)) obj)"

subsection \<open>uniqueByName, createPairs, createPairList\<close>

text \<open>
  \<^verbatim>\<open>uniqueByName\<close> reduces the list into \<^verbatim>\<open>nameMap\<close>, a later item replacing an earlier
  one of the same name, and sorts the values with the default comparison. That
  comparison is on the string forms, \<^verbatim>\<open>[object Object]\<close> for every item, so all items
  compare equal and the sort, which is stable, keeps the order.
\<close>

definition uniqueByName :: "ComparisonItem list \<Rightarrow> ProcessedComparisonItem list" where
  "uniqueByName xs =
     object_values
       (foldl (\<lambda>nameMap item.
                 assign (item_name item)
                   \<lparr>proc_name = item_name item, proc_image = item_image item,
                    proc_id = item_name item, proc_score = 0\<rparr>
                   nameMap)
              [] xs)"

definition createPairs ::
  "ProcessedComparisonItem \<Rightarrow> ProcessedComparisonItem list \<Rightarrow> VotingPair0 list" where
  "createPairs item xs =
     foldl (\<lambda>pairList pairItem.
              if proc_name item \<noteq> proc_name pairItem
              then pairList @ [\<lparr>left = item, right = pairItem, winner = None\<rparr>]
              else pairList)
           [] xs"

definition createPairList :: "ProcessedComparisonItem list \<Rightarrow> VotingPair0 list" where
  "createPairList xs = foldl (\<lambda>result item. result @ createPairs item xs) [] xs"

subsection \<open>The reducer of the context module\<close>

text \<open>
  \<^verbatim>\<open>generateNewKey\<close> reads the clock and the random generator: \<open>gen k\<close> is the key that
  its call number \<open>k\<close> returns. The uniqueness loop of \<^verbatim>\<open>PROFILE/ADD\<close> draws a new key
  while \<^verbatim>\<open>state.profiles[newProfileId]\<close> is truthy and \<^verbatim>\<open>safetyCheck--\<close> is not zero;
  \<open>pickKey gen profs k n\<close> is the key the loop ends with when it starts with the key number
  \<open>k\<close> and \<^verbatim>\<open>safetyCheck = n\<close>.
\<close>

fun pickKey :: "(nat \<Rightarrow> string) \<Rightarrow> (string \<rightharpoonup> 'p) \<Rightarrow> nat \<Rightarrow> nat \<Rightarrow> string" where
  "pickKey gen profs k 0 = gen k"
| "pickKey gen profs k (Suc n) =
     (if truthy_at profs (gen k) then pickKey gen profs (Suc k) n else gen k)"

text \<open>
  \<^verbatim>\<open>PROFILE/ADD\<close> assigns the new profile into \<^verbatim>\<open>state.profiles\<close> and returns a state with a
  copy of that object. The assignment is to the object of the state passed in, so that
  state holds the new profile too; the result of \<open>reducer0\<close> is the state returned.
  \<^verbatim>\<open>PROFILE/SET_CURRENT\<close> throws if \<^verbatim>\<open>state.profiles[currentProfileId]\<close> is not truthy.
\<close>

fun reducer0 ::
  "(nat \<Rightarrow> string) \<Rightarrow> int \<Rightarrow> ProfileState0 \<Rightarrow> Action0 \<Rightarrow> error0 + ProfileState0" where
  "reducer0 gen now state (PROFILE_ADD nm xs) =
     (let uniqList = uniqueByName xs;
          newProfileId = pickKey gen (profiles0 state) 0 100
      in Inr (state\<lparr>currentProfile0 := Some newProfileId,
                    profiles0 := assign_map (profiles0 state) newProfileId
                      \<lparr>name0 = nm, list0 = uniqList, dateTime0 = now,
                       pairs0 = createPairList uniqList, voted = []\<rparr>\<rparr>))"
| "reducer0 gen now state (PROFILE_SET_CURRENT currentProfileId) =
     (if \<not> truthy_at (profiles0 state) currentProfileId
      then Inl (InvalidProfile0 currentProfileId)
      else Inr (state\<lparr>currentProfile0 := Some currentProfileId\<rparr>))"
| "reducer0 gen now state (OTHER t) = Inr state"

section \<open>The profile reducer\<close>

text \<open>
  The reducer module (\<^verbatim>\<open>reducer\<close>, \<^verbatim>\<open>profileReducer\<close>, \<^verbatim>\<open>listReducer\<close>, \<^verbatim>\<open>pairReducer\<close>) is
  embedded function by function. The clock reading \<^verbatim>\<open>new Date().getTime()\<close> is the
  argument \<open>now\<close>.

  The module writes one kind of object in place: \<^verbatim>\<open>PAIR_SKIP\<close> copies the array of pairs
  and increments the counter of the pair object itself. Pair objects therefore live in a
  store, a queue of pairs is a list of references into it, and every function takes the
  store and returns it with its result. All other objects are built anew by a literal or
  a spread whenever they change, and are values. A \<^verbatim>\<open>throw\<close> is the left injection of the
  result; the store returned with it shows what was written before the \<^verbatim>\<open>throw\<close>.
\<close>

subsection \<open>Data\<close>

text \<open>
  Modelled from the spec: the type declarations \<^verbatim>\<open>ComparisonCandidate\<close> and \<^verbatim>\<open>VotingPair\<close>
  of \<^verbatim>\<open>./ProfileStructure\<close> are not part of the sources. The candidate has the fields
  \<^verbatim>\<open>id\<close>, \<^verbatim>\<open>name\<close>, \<^verbatim>\<open>image\<close> and \<^verbatim>\<open>score\<close>; the first three are optional here because
  \<^verbatim>\<open>listReducer\<close> can build an object that has a score only, and a missing score reads as
  \<^verbatim>\<open>NaN\<close> under \<^verbatim>\<open>++\<close>. The pair has the fields \<^verbatim>\<open>id\<close>, \<^verbatim>\<open>leftId\<close>, \<^verbatim>\<open>rightId\<close> and
  \<^verbatim>\<open>skipped\<close>; the reducer reads \<^verbatim>\<open>id\<close> and writes \<^verbatim>\<open>skipped\<close>.
\<close>

record ComparisonCandidate =
  cand_id :: "string option"
  cand_name :: "string option"
  cand_image :: "string option"
  score :: jsnum

record VotingPair =
  pair_id :: string
  leftId :: string
  rightId :: string
  skipped :: jsnum

type_synonym ref = nat

type_synonym store = "ref \<Rightarrow> VotingPair"

record ProfileItem =
  name :: string
  list :: "string \<rightharpoonup> ComparisonCandidate"
  dateTime :: int
  pairs :: "ref list"
  totalComparisons :: int

record ProfileState =
  currentProfile :: "string option"
  profiles :: "string \<rightharpoonup> ProfileItem"

text \<open>
  The action object \<^verbatim>\<open>{type, data}\<close>, one constructor for each \<^verbatim>\<open>type\<close> the reducer
  knows, with the fields of \<^verbatim>\<open>data\<close> it reads, and \<open>Other\<close> for any other \<^verbatim>\<open>type\<close>. The
  pairs of \<^verbatim>\<open>data.pairList\<close> are references too.
\<close>

datatype Action =
    ProfileSetCurrent string
  | ProfileAdd string string "string \<rightharpoonup> ComparisonCandidate" "ref list"
  | ListResetRows "string \<rightharpoonup> ComparisonCandidate" "ref list"
  | PairSkip int
  | PairVote int string
  | Other string

datatype error = InvalidProfile string | NoProfileSelected | TypeError

subsection \<open>pairReducer\<close>

text \<open>
  \<^verbatim>\<open>PAIR_VOTE\<close> copies the queue and splices one element out. \<^verbatim>\<open>PAIR_SKIP\<close> copies the
  queue and increments \<^verbatim>\<open>pairSkip[pairIndex].skipped\<close>, a write to the pair object that the
  old queue holds as well; where \<^verbatim>\<open>pairIndex\<close> is not an index of the queue the element
  read is \<^verbatim>\<open>undefined\<close> and the property access throws a \<^verbatim>\<open>TypeError\<close>.
\<close>

fun pairReducer ::
  "store \<Rightarrow> ref list \<Rightarrow> Action \<Rightarrow> int \<Rightarrow> (error + ref list) \<times> store" where
  "pairReducer h state (PairVote _ _) pairIndex = (Inr (splice1 state pairIndex), h)"
| "pairReducer h state (PairSkip _) pairIndex =
     (if 0 \<le> pairIndex \<and> pairIndex < int (length state)
      then (Inr state,
            h(state ! nat pairIndex :=
                (h (state ! nat pairIndex))
                  \<lparr>skipped := incr (skipped (h (state ! nat pairIndex)))\<rparr>))
      else (Inl TypeError, h))"
| "pairReducer h state _ pairIndex = (Inr state, h)"

subsection \<open>listReducer\<close>

text \<open>
  \<^verbatim>\<open>PAIR_VOTE\<close> assigns a spread of \<^verbatim>\<open>state[listId]\<close> to the key \<^verbatim>\<open>listId\<close> of the new object
  \<^verbatim>\<open>voteListRow\<close>, increments its score and returns the spread of \<^verbatim>\<open>state\<close> and
  \<^verbatim>\<open>voteListRow\<close>. The spread of \<^verbatim>\<open>undefined\<close> and that of an inherited member, which has no
  enumerable property of its own, is the empty object, whose score becomes \<^verbatim>\<open>NaN\<close>.
\<close>

fun listReducer ::
  "(string \<rightharpoonup> ComparisonCandidate) \<Rightarrow> Action \<Rightarrow> string \<Rightarrow> (string \<rightharpoonup> ComparisonCandidate)"
where
  "listReducer state (PairVote _ _) listId =
     state ++ assign_map Map.empty listId
       (case state listId of
          None \<Rightarrow> \<lparr>cand_id = None, cand_name = None, cand_image = None, score = NaN\<rparr>
        | Some row \<Rightarrow> row\<lparr>score := incr (score row)\<rparr>)"
| "listReducer state _ listId = state"

subsection \<open>profileReducer\<close>

text \<open>
  The pairs kept by \<^verbatim>\<open>LIST_RESET_ROWS\<close>: those whose index is the first index of their id.
\<close>

definition uniquePairs :: "store \<Rightarrow> ref list \<Rightarrow> ref list" where
  "uniquePairs h resetPairs =
     filter_indexed
       (\<lambda>pair index.
          findIndex (\<lambda>pairCheck. pair_id (h pairCheck) = pair_id (h pair)) resetPairs = index)
       resetPairs"

text \<open>
  The third parameter, \<^verbatim>\<open>currentProfile\<close> in the source, is \<open>current\<close> here. Every case
  builds the new profile, assigns it to the key \<open>current\<close> of a new object and returns the
  spread of \<^verbatim>\<open>state\<close> and that object. Every case but \<^verbatim>\<open>PROFILE_ADD\<close> reads fields of
  \<^verbatim>\<open>state[currentProfile]\<close>: where that is \<^verbatim>\<open>undefined\<close> the read throws a \<^verbatim>\<open>TypeError\<close>,
  and where it is an inherited member the field read is \<^verbatim>\<open>undefined\<close> and the spread or
  the property access on it throws a \<^verbatim>\<open>TypeError\<close>. The clock is read once in each case.
\<close>

fun profileReducer ::
  "int \<Rightarrow> store \<Rightarrow> (string \<rightharpoonup> ProfileItem) \<Rightarrow> Action \<Rightarrow> string \<Rightarrow>
   (error + (string \<rightharpoonup> ProfileItem)) \<times> store"
where
  "profileReducer now h state (ProfileAdd newProfileId nm nameMap pairList) current =
     (Inr (state ++ assign_map Map.empty current
       \<lparr>name = nm, list = nameMap, dateTime = now, pairs = pairList,
        totalComparisons = int (length pairList)\<rparr>), h)"
| "profileReducer now h state (PairSkip pairIndex) current =
     (case state current of
        None \<Rightarrow> (Inl TypeError, h)
      | Some profile \<Rightarrow>
          (case pairReducer h (pairs profile) (PairSkip pairIndex) pairIndex of
             (Inl e, h') \<Rightarrow> (Inl e, h')
           | (Inr pairs', h') \<Rightarrow>
               (Inr (state ++ assign_map Map.empty current
                  (profile\<lparr>dateTime := now, pairs := pairs'\<rparr>)), h')))"
| "profileReducer now h state (PairVote pairIndex winnerListId) current =
     (case state current of
        None \<Rightarrow> (Inl TypeError, h)
      | Some profile \<Rightarrow>
          (case pairReducer h (pairs profile) (PairVote pairIndex winnerListId) pairIndex of
             (Inl e, h') \<Rightarrow> (Inl e, h')
           | (Inr pairs', h') \<Rightarrow>
               (Inr (state ++ assign_map Map.empty current
                  (profile
                     \<lparr>dateTime := now,
                      list := listReducer (list profile) (PairVote pairIndex winnerListId)
                                winnerListId,
                      pairs := pairs'\<rparr>)), h')))"
| "profileReducer now h state (ListResetRows nameMap pairList) current =
     (case state current of
        None \<Rightarrow> (Inl TypeError, h)
      | Some profile \<Rightarrow>
          (Inr (state ++ assign_map Map.empty current
             (profile
                \<lparr>dateTime := now,
                 list := list profile ++ nameMap,
                 pairs := uniquePairs h (pairs profile @ pairList)\<rparr>)), h))"
| "profileReducer now h state _ current = (Inr state, h)"

subsection \<open>reducer\<close>

text \<open>
  \<^verbatim>\<open>PROFILE_SET_CURRENT\<close> throws if \<^verbatim>\<open>state.profiles[currentProfileId]\<close> is not truthy. The
  last equation is the shared body of the cases \<^verbatim>\<open>LIST_RESET_ROWS\<close>, \<^verbatim>\<open>PAIR_SKIP\<close> and
  \<^verbatim>\<open>PAIR_VOTE\<close>, which throws the error for no selected profile if
  \<^verbatim>\<open>state.profiles[state.currentProfile]\<close> is not truthy; \<open>Other\<close> is the \<^verbatim>\<open>default\<close> case.
\<close>

fun reducer :: "int \<Rightarrow> store \<Rightarrow> ProfileState \<Rightarrow> Action \<Rightarrow> (error + ProfileState) \<times> store" where
  "reducer now h state (ProfileSetCurrent currentProfileId) =
     (if \<not> truthy_at (profiles state) currentProfileId
      then (Inl (InvalidProfile currentProfileId), h)
      else (Inr (state\<lparr>currentProfile := Some currentProfileId\<rparr>), h))"
| "reducer now h state (ProfileAdd newProfileId nm nameMap pairList) =
     (case profileReducer now h (profiles state) (ProfileAdd newProfileId nm nameMap pairList)
             newProfileId of
        (Inl e, h') \<Rightarrow> (Inl e, h')
      | (Inr profiles', h') \<Rightarrow>
          (Inr (state\<lparr>currentProfile := Some newProfileId, profiles := profiles'\<rparr>), h'))"
| "reducer now h state (Other t) = (Inr state, h)"
| "reducer now h state action =
     (if \<not> truthy_at (profiles state) (prop_key (currentProfile state))
      then (Inl NoProfileSelected, h)
      else (case profileReducer now h (profiles state) action (prop_key (currentProfile state)) of
              (Inl e, h') \<Rightarrow> (Inl e, h')
            | (Inr profiles', h') \<Rightarrow> (Inr (state\<lparr>profiles := profiles'\<rparr>), h')))"

section \<open>Notions used in the statements\<close>

text \<open>
  The invariant of \<^verbatim>\<open>nameMap\<close> while \<^verbatim>\<open>uniqueByName\<close> builds it: the keys are distinct and
  every value carries its key as name and as id.
\<close>

definition named :: "ProcessedComparisonItem object \<Rightarrow> bool" where
  "named obj = (distinct (map fst obj) \<and> (\<forall>(k, v) \<in> set obj. proc_name v = k \<and> proc_id v = k))"

text \<open>
  The profile that the vote, skip and reset actions work on is the one under the key
  \<^verbatim>\<open>state.currentProfile\<close>.
\<close>

definition current_key :: "ProfileState \<Rightarrow> string" where
  "current_key state = prop_key (currentProfile state)"

text \<open>The progress of a profile: its total of comparisons minus the pending pairs.\<close>

definition progress :: "ProfileItem \<Rightarrow> int" where
  "progress profile = totalComparisons profile - int (length (pairs profile))"

text \<open>
  The integers \<open>n\<close> for which \<^verbatim>\<open>n + 1\<close> is exact in double arithmetic.
\<close>

definition safe :: "int \<Rightarrow> bool" where
  "safe n = (- (2 ^ 53) \<le> n \<and> n < 2 ^ 53)"

text \<open>
  The sum of the scores of a candidate mapping, as an integer; a score that is \<^verbatim>\<open>NaN\<close>
  adds nothing to it.
\<close>

definition score_value :: "ComparisonCandidate \<Rightarrow> int" where
  "score_value row = (case score row of Num n \<Rightarrow> n | NaN \<Rightarrow> 0)"

definition total_score :: "(string \<rightharpoonup> ComparisonCandidate) \<Rightarrow> int" where
  "total_score rows = (\<Sum>k \<in> dom rows. score_value (the (rows k)))"

text \<open>
  A sequence of actions, each with the clock reading of its call, each applied to the
  state and store that the one before returned. The first action that throws ends the
  run with its error.
\<close>

fun run ::
  "store \<Rightarrow> ProfileState \<Rightarrow> (int \<times> Action) list \<Rightarrow> (error + ProfileState) \<times> store" where
  "run h state [] = (Inr state, h)"
| "run h state ((now, action) # rest) =
     (case reducer now h state action of
        (Inl e, h') \<Rightarrow> (Inl e, h')
      | (Inr state', h') \<Rightarrow> run h' state' rest)"

text \<open>
  Dispatching an action: the store and the state that the caller holds afterwards, which
  is the state the reducer returns, or the state passed in when the reducer throws.
  \<open>dispatch_all\<close> dispatches a sequence of actions, each with the clock reading of its
  call.
\<close>

fun dispatch :: "int \<Rightarrow> store \<times> ProfileState \<Rightarrow> Action \<Rightarrow> store \<times> ProfileState" where
  "dispatch now (h, state) action =
     (case reducer now h state action of
        (Inl e, h') \<Rightarrow> (h', state)
      | (Inr state', h') \<Rightarrow> (h', state'))"

fun dispatch_all :: "store \<times> ProfileState \<Rightarrow> (int \<times> Action) list \<Rightarrow> store \<times> ProfileState" where
  "dispatch_all hs [] = hs"
| "dispatch_all hs ((now, action) # rest) = dispatch_all (dispatch now hs action) rest"

text \<open>
  A vote is valid in a state if the current key holds a profile, the index is an index
  of its pending queue, and the winner is a side of the pair at that index and a key of
  the candidate mapping. The key of the profile and the winner are not \<^verbatim>\<open>__proto__\<close>, a
  name under which the reducer stores nothing. A sequence of votes is valid if each vote
  is valid in the state the votes before it lead to.
\<close>

definition valid_vote :: "store \<Rightarrow> ProfileState \<Rightarrow> int \<Rightarrow> string \<Rightarrow> bool" where
  "valid_vote h state pairIndex winnerListId =
     (case profiles state (current_key state) of
        None \<Rightarrow> False
      | Some profile \<Rightarrow>
          current_key state \<noteq> ''__proto__'' \<and>
          0 \<le> pairIndex \<and> pairIndex < int (length (pairs profile)) \<and>
          (winnerListId = leftId (h (pairs profile ! nat pairIndex)) \<or>
           winnerListId = rightId (h (pairs profile ! nat pairIndex))) \<and>
          winnerListId \<noteq> ''__proto__'' \<and> list profile winnerListId \<noteq> None)"

fun vote_actions :: "(int \<times> int \<times> string) list \<Rightarrow> (int \<times> Action) list" where
  "vote_actions [] = []"
| "vote_actions ((now, pairIndex, winnerListId) # rest) =
     (now, PairVote pairIndex winnerListId) # vote_actions rest"

fun valid_votes :: "store \<Rightarrow> ProfileState \<Rightarrow> (int \<times> int \<times> string) list \<Rightarrow> bool" where
  "valid_votes h state [] = True"
| "valid_votes h state ((now, pairIndex, winnerListId) # rest) =
     (valid_vote h state pairIndex winnerListId \<and>
      (case reducer now h state (PairVote pairIndex winnerListId) of
         (Inl e, h') \<Rightarrow> valid_votes h' state rest
       | (Inr state', h') \<Rightarrow> valid_votes h' state' rest))"

text \<open>
  The elements of a list whose key under \<open>f\<close> is neither in \<open>seen\<close> nor the key of an
  earlier element of the list.
\<close>

fun first_by :: "('a \<Rightarrow> string) \<Rightarrow> string set \<Rightarrow> 'a list \<Rightarrow> 'a list" where
  "first_by f seen [] = []"
| "first_by f seen (x # rest) =
     (if f x \<in> seen then first_by f seen rest
      else x # first_by f (insert (f x) seen) rest)"

text \<open>
  The invariant of the root state: a current profile that is not \<^verbatim>\<open>null\<close> is a key of
  the profiles; for the state of the context module and for that of the reducer module.
\<close>

definition current_valid0 :: "ProfileState0 \<Rightarrow> bool" where
  "current_valid0 state =
     (case currentProfile0 state of None \<Rightarrow> True | Some k \<Rightarrow> profiles0 state k \<noteq> None)"

definition current_valid :: "ProfileState \<Rightarrow> bool" where
  "current_valid state =
     (case currentProfile state of None \<Rightarrow> True | Some k \<Rightarrow> profiles state k \<noteq> None)"

text \<open>
  The actions under which the progress of the profile \<open>k\<close> is followed: every action
  but a reset of rows and an added profile that takes the key \<open>k\<close> itself.
\<close>

fun keeps :: "string \<Rightarrow> Action \<Rightarrow> bool" where
  "keeps k (ListResetRows nameMap pairList) = False"
| "keeps k (ProfileAdd newProfileId nm nameMap pairList) = (newProfileId \<noteq> k)"
| "keeps k _ = True"

subsection \<open>Example data\<close>

text \<open>
  The store of the example holds the pairs of the candidates A, B and C under the
  references 0, 1 and 2 and the pair of A and a new candidate D under 3 (the reference 4
  and every other one hold the pair of A and B too). The example profile is that of A,
  B and C with its three pending pairs, as it is created, and as it is after three votes.
\<close>

abbreviation cand :: "string \<Rightarrow> int \<Rightarrow> ComparisonCandidate" where
  "cand n k \<equiv> \<lparr>cand_id = Some n, cand_name = Some n, cand_image = None, score = Num k\<rparr>"

abbreviation no_name :: ComparisonCandidate where
  "no_name \<equiv> \<lparr>cand_id = None, cand_name = None, cand_image = None, score = NaN\<rparr>"

abbreviation AB :: VotingPair where
  "AB \<equiv> \<lparr>pair_id = ''A-B'', leftId = ''A'', rightId = ''B'', skipped = Num 0\<rparr>"

abbreviation AC :: VotingPair where
  "AC \<equiv> \<lparr>pair_id = ''A-C'', leftId = ''A'', rightId = ''C'', skipped = Num 0\<rparr>"

abbreviation BC :: VotingPair where
  "BC \<equiv> \<lparr>pair_id = ''B-C'', leftId = ''B'', rightId = ''C'', skipped = Num 0\<rparr>"

abbreviation AD :: VotingPair where
  "AD \<equiv> \<lparr>pair_id = ''A-D'', leftId = ''A'', rightId = ''D'', skipped = Num 0\<rparr>"

abbreviation pair_store :: store where
  "pair_store \<equiv> (\<lambda>r. AB)(1 := AC, 2 := BC, 3 := AD)"

abbreviation no_profiles :: ProfileState where
  "no_profiles \<equiv> \<lparr>currentProfile = None, profiles = Map.empty\<rparr>"

abbreviation one_profile :: "ProfileItem \<Rightarrow> ProfileState" where
  "one_profile profile \<equiv> \<lparr>currentProfile = Some ''p'', profiles = [''p'' \<mapsto> profile]\<rparr>"

abbreviation fresh_ABC :: ProfileItem where
  "fresh_ABC \<equiv>
     \<lparr>name = ''P'',
      list = [''A'' \<mapsto> cand ''A'' 0, ''B'' \<mapsto> cand ''B'' 0, ''C'' \<mapsto> cand ''C'' 0],
      dateTime = 1, pairs = [0, 1, 2], totalComparisons = 3\<rparr>"

abbreviation voted_ABC :: ProfileItem where
  "voted_ABC \<equiv>
     \<lparr>name = ''P'',
      list = [''A'' \<mapsto> cand ''A'' 2, ''B'' \<mapsto> cand ''B'' 0, ''C'' \<mapsto> cand ''C'' 1],
      dateTime = 4, pairs = [], totalComparisons = 3\<rparr>"

section \<open>Properties of the JavaScript helpers\<close>

text \<open>
  The spread of an object and a new object with one assigned key, which is how every
  reducer stores an entry.
\<close>

lemma spread_assign:
  "m ++ assign_map Map.empty k v = (if k = ''__proto__'' then m else m(k \<mapsto> v))"
  by (simp add: assign_map_def)

text \<open>
  Rounding leaves every integer of magnitude up to \<open>2 ^ 53\<close> as it is, so \<^verbatim>\<open>n++\<close> is exact
  for a safe \<open>n\<close>; above that it is not.
\<close>

lemma excess_small: "a < 2 ^ 53 \<Longrightarrow> excess f a = 0"
  by (cases f) simp_all

lemma excess_1024_pow53: "excess 1024 (2 ^ 53) = 1"
  by code_simp

lemma round_double_exact: "\<bar>x\<bar> \<le> 2 ^ 53 \<Longrightarrow> round_double x = x"
proof (cases "\<bar>x\<bar> < 2 ^ 53")
  case True
  then show ?thesis by (simp add: round_double_def excess_small)
next
  case False
  assume "\<bar>x\<bar> \<le> 2 ^ 53"
  with False have a: "\<bar>x\<bar> = 2 ^ 53" by simp
  then have "x = 2 ^ 53 \<or> x = - (2 ^ 53)" by linarith
  then show ?thesis
    unfolding round_double_def a excess_1024_pow53 by (auto simp: Let_def)
qed

lemma incr_safe: "- (2 ^ 53) \<le> n \<Longrightarrow> n < 2 ^ 53 \<Longrightarrow> incr (Num n) = Num (n + 1)"
  by (simp add: round_double_exact)

lemma round_double_above: "round_double 9007199254740993 = 9007199254740992"
  by code_simp

section \<open>Properties of the context module\<close>

subsection \<open>Normalisation and pair generation\<close>

lemma foldl_push:
  "foldl (\<lambda>acc x. if P x then acc @ [g x] else acc) acc xs = acc @ map g (filter P xs)"
  by (induction xs arbitrary: acc) simp_all

lemma createPairs_eq:
  "createPairs item xs =
     map (\<lambda>q. \<lparr>left = item, right = q, winner = None\<rparr>)
         (filter (\<lambda>q. proc_name item \<noteq> proc_name q) xs)"
  unfolding createPairs_def using foldl_push [of _ _ "[]"] by simp

lemma foldl_concat: "foldl (\<lambda>acc x. acc @ g x) acc xs = acc @ concat (map g xs)"
  by (induction xs arbitrary: acc) simp_all

lemma createPairList_eq: "createPairList xs = concat (map (\<lambda>item. createPairs item xs) xs)"
  unfolding createPairList_def using foldl_concat [of _ "[]"] by simp

lemma put_keys:
  "map fst (put k v obj) = (if k \<in> fst ` set obj then map fst obj else map fst obj @ [k])"
  by (induction obj) (auto split: if_splits)

lemma put_distinct: "distinct (map fst obj) \<Longrightarrow> distinct (map fst (put k v obj))"
  by (simp add: put_keys)

lemma put_values: "set (put k v obj) \<subseteq> insert (k, v) (set obj)"
  by (induction obj) (auto split: if_splits)

lemma named_assign:
  "named obj \<Longrightarrow> proc_name v = k \<Longrightarrow> proc_id v = k \<Longrightarrow> named (assign k v obj)"
  using put_values [of k v obj] by (auto simp: named_def assign_def put_distinct)

lemma named_foldl:
  "named obj \<Longrightarrow>
   named (foldl (\<lambda>nameMap item.
                 assign (item_name item)
                   \<lparr>proc_name = item_name item, proc_image = item_image item,
                    proc_id = item_name item, proc_score = 0\<rparr>
                   nameMap) obj xs)"
  by (induction xs arbitrary: obj) (simp_all add: named_assign)

lemma mset_object_values: "mset (object_values obj) = mset (map snd obj)"
  by (simp add: object_values_def flip: image_mset_union)

lemma named_values: "named obj \<Longrightarrow> distinct (map proc_name (object_values obj))"
proof -
  assume n: "named obj"
  have "map proc_name (map snd obj) = map fst obj"
    using n by (auto simp: named_def)
  then have "mset (map proc_name (object_values obj)) = mset (map fst obj)"
    using mset_object_values [of obj] by (metis mset_map)
  then show ?thesis using n by (metis named_def mset_eq_imp_distinct_iff)
qed

lemma uniqueByName_distinct: "distinct (map proc_name (uniqueByName raw))"
  unfolding uniqueByName_def by (rule named_values, rule named_foldl) (simp add: named_def)

lemma uniqueByName_ids: "c \<in> set (uniqueByName raw) \<Longrightarrow> proc_id c = proc_name c"
proof -
  let ?obj = "foldl (\<lambda>nameMap item.
                 assign (item_name item)
                   \<lparr>proc_name = item_name item, proc_image = item_image item,
                    proc_id = item_name item, proc_score = 0\<rparr>
                   nameMap) [] raw"
  assume "c \<in> set (uniqueByName raw)"
  then have "c \<in># mset (object_values ?obj)" by (simp add: uniqueByName_def)
  then have "c \<in> snd ` set ?obj" by (simp add: mset_object_values)
  moreover have "named ?obj" by (rule named_foldl) (simp add: named_def)
  ultimately show ?thesis by (auto simp: named_def)
qed

lemma length_filter_other:
  "distinct (map proc_name cs) \<Longrightarrow> a \<in> set cs \<Longrightarrow>
   length (filter (\<lambda>q. proc_name a \<noteq> proc_name q) cs) = length cs - 1"
proof (induction cs)
  case Nil
  then show ?case by simp
next
  case (Cons c cs)
  show ?case
  proof (cases "a = c")
    case True
    have "filter (\<lambda>q. proc_name a \<noteq> proc_name q) cs = cs"
      using Cons.prems(1) True by (auto simp: filter_id_conv)
    with True show ?thesis by simp
  next
    case False
    with Cons.prems have a: "a \<in> set cs" by simp
    have "proc_name c \<notin> proc_name ` set cs" using Cons.prems(1) by simp
    with a have ne: "proc_name a \<noteq> proc_name c" by (metis imageI)
    from a have "0 < length cs" by (cases cs) auto
    with Cons a ne show ?thesis by simp
  qed
qed

lemma length_createPairList:
  assumes "distinct (map proc_name cs)"
  shows "length (createPairList cs) = length cs * (length cs - 1)"
proof -
  have "map (\<lambda>a. length (createPairs a cs)) cs = map (\<lambda>a. length cs - 1) cs"
    using assms by (simp add: createPairs_eq length_filter_other)
  then have "sum_list (map (\<lambda>a. length (createPairs a cs)) cs) = length cs * (length cs - 1)"
    by (simp only: sum_list_triv) simp
  then show ?thesis
    by (simp add: createPairList_eq length_concat comp_def)
qed

lemma set_createPairList:
  "set (createPairList cs) =
     {\<lparr>left = a, right = b, winner = None\<rparr> | a b.
        a \<in> set cs \<and> b \<in> set cs \<and> proc_name a \<noteq> proc_name b}"
  by (auto simp: createPairList_eq createPairs_eq)

lemma distinct_concat_map:
  "distinct xs \<Longrightarrow> (\<And>a. a \<in> set xs \<Longrightarrow> distinct (g a)) \<Longrightarrow>
   (\<And>a b. a \<in> set xs \<Longrightarrow> b \<in> set xs \<Longrightarrow> a \<noteq> b \<Longrightarrow> set (g a) \<inter> set (g b) = {}) \<Longrightarrow>
   distinct (concat (map g xs))"
  by (induction xs) auto

lemma distinct_createPairList:
  assumes "distinct cs"
  shows "distinct (createPairList cs)"
  unfolding createPairList_eq
proof (rule distinct_concat_map)
  show "distinct cs" by (rule assms)
next
  fix a
  show "distinct (createPairs a cs)"
    using assms by (simp add: createPairs_eq distinct_map inj_on_def)
next
  fix a b :: ProcessedComparisonItem
  assume "a \<noteq> b"
  then show "set (createPairs a cs) \<inter> set (createPairs b cs) = {}"
    by (auto simp: createPairs_eq)
qed

lemma unordered_twice:
  assumes d: "distinct (map proc_id cs)"
    and n: "\<And>c. c \<in> set cs \<Longrightarrow> proc_id c = proc_name c"
    and a: "a \<in> set cs" and b: "b \<in> set cs" and ab: "proc_id a \<noteq> proc_id b"
  shows "length (filter (\<lambda>p. {proc_id (left p), proc_id (right p)} = {proc_id a, proc_id b})
                        (createPairList cs)) = 2"
proof -
  let ?Q = "\<lambda>p. {proc_id (left p), proc_id (right p)} = {proc_id a, proc_id b}"
  let ?ab = "\<lparr>left = a, right = b, winner = None\<rparr>"
  let ?ba = "\<lparr>left = b, right = a, winner = None\<rparr>"
  have inj: "\<And>x y. x \<in> set cs \<Longrightarrow> y \<in> set cs \<Longrightarrow> proc_id x = proc_id y \<Longrightarrow> x = y"
    using d by (auto simp: distinct_map inj_on_def)
  have dcs: "distinct cs" using d by (simp add: distinct_map)
  have "set (filter ?Q (createPairList cs)) = {?ab, ?ba}"
  proof (intro set_eqI iffI)
    fix p
    assume "p \<in> set (filter ?Q (createPairList cs))"
    then obtain x y where p: "p = \<lparr>left = x, right = y, winner = None\<rparr>"
      and x: "x \<in> set cs" and y: "y \<in> set cs" and q: "?Q p"
      by (auto simp: set_createPairList)
    from q p have "(proc_id x = proc_id a \<and> proc_id y = proc_id b)
                 \<or> (proc_id x = proc_id b \<and> proc_id y = proc_id a)"
      by (auto simp: doubleton_eq_iff)
    then have "(x = a \<and> y = b) \<or> (x = b \<and> y = a)"
      using inj x y a b by blast
    with p show "p \<in> {?ab, ?ba}" by auto
  next
    fix p
    assume "p \<in> {?ab, ?ba}"
    then show "p \<in> set (filter ?Q (createPairList cs))"
      using a b ab n by (auto simp: set_createPairList)
  qed
  moreover have "?ab \<noteq> ?ba" using ab by auto
  ultimately have c2: "card (set (filter ?Q (createPairList cs))) = 2" by simp
  have dd: "distinct (filter ?Q (createPairList cs))"
    using dcs by (simp add: distinct_createPairList)
  show ?thesis using distinct_card [OF dd] c2 by linarith
qed

text \<open>
  What the code computes: the normalised candidates have distinct ids, and
  \<^verbatim>\<open>createPairList\<close> over \<open>n\<close> of them gives \<open>n * (n - 1)\<close> pairs, every ordered pair of two
  different candidates once, so every unordered pair twice, and no pair of a candidate
  with itself.
\<close>

lemma createPairList_ordered_pairs:
  "distinct (map proc_id (uniqueByName raw)) \<and>
   length (createPairList (uniqueByName raw)) =
     length (uniqueByName raw) * (length (uniqueByName raw) - 1) \<and>
   distinct (createPairList (uniqueByName raw)) \<and>
   set (createPairList (uniqueByName raw)) =
     {\<lparr>left = a, right = b, winner = None\<rparr> | a b.
        a \<in> set (uniqueByName raw) \<and> b \<in> set (uniqueByName raw) \<and> proc_id a \<noteq> proc_id b} \<and>
   (\<forall>a \<in> set (uniqueByName raw). \<forall>b \<in> set (uniqueByName raw).
      proc_id a \<noteq> proc_id b \<longrightarrow>
      length (filter (\<lambda>p. {proc_id (left p), proc_id (right p)} = {proc_id a, proc_id b})
                     (createPairList (uniqueByName raw))) = 2) \<and>
   (\<forall>p \<in> set (createPairList (uniqueByName raw)). proc_id (left p) \<noteq> proc_id (right p))"
proof -
  let ?cs = "uniqueByName raw"
  have n: "\<And>c. c \<in> set ?cs \<Longrightarrow> proc_id c = proc_name c"
    by (rule uniqueByName_ids)
  have dn: "distinct (map proc_name ?cs)" by (rule uniqueByName_distinct)
  have m: "map proc_id ?cs = map proc_name ?cs" using n by simp
  have di: "distinct (map proc_id ?cs)" unfolding m by (rule dn)
  have dc: "distinct ?cs" using dn by (simp add: distinct_map)
  have s: "set (createPairList ?cs) =
     {\<lparr>left = a, right = b, winner = None\<rparr> | a b.
        a \<in> set ?cs \<and> b \<in> set ?cs \<and> proc_id a \<noteq> proc_id b}"
    unfolding set_createPairList using n by metis
  have "\<forall>p \<in> set (createPairList ?cs). proc_id (left p) \<noteq> proc_id (right p)"
    unfolding s by auto
  moreover have "\<forall>a \<in> set ?cs. \<forall>b \<in> set ?cs. proc_id a \<noteq> proc_id b \<longrightarrow>
      length (filter (\<lambda>p. {proc_id (left p), proc_id (right p)} = {proc_id a, proc_id b})
                     (createPairList ?cs)) = 2"
    using unordered_twice [OF di n] by blast
  ultimately show ?thesis
    using di s length_createPairList [OF dn] distinct_createPairList [OF dc] by blast
qed

text \<open>
  The normaliser on the two items named A and B.
\<close>

lemma uniqueByName_AB:
  "uniqueByName [\<lparr>item_name = ''A'', item_image = None\<rparr>, \<lparr>item_name = ''B'', item_image = None\<rparr>]
   = [\<lparr>proc_name = ''A'', proc_image = None, proc_id = ''A'', proc_score = 0\<rparr>,
      \<lparr>proc_name = ''B'', proc_image = None, proc_id = ''B'', proc_score = 0\<rparr>]"
  by (simp add: uniqueByName_def assign_def object_values_def array_index_def digit_def)

text \<open>
  Claim C1, the code at the failing input. The two candidates A and B give two pairs, A
  against B and B against A, where the claim says \<open>2 * (2 - 1) / 2 = 1\<close> pair with the
  unordered pair of A and B once; the comment of \<^verbatim>\<open>createPairList\<close> gives
  \<open>(N - 1)^2 = 1\<close> for this input too.
\<close>

theorem createPairList_two_items:
  "length (uniqueByName
     [\<lparr>item_name = ''A'', item_image = None\<rparr>, \<lparr>item_name = ''B'', item_image = None\<rparr>]) = 2 \<and>
   length (createPairList (uniqueByName
     [\<lparr>item_name = ''A'', item_image = None\<rparr>, \<lparr>item_name = ''B'', item_image = None\<rparr>]))
     \<noteq> 2 * (2 - 1) div 2 \<and>
   createPairList (uniqueByName
     [\<lparr>item_name = ''A'', item_image = None\<rparr>, \<lparr>item_name = ''B'', item_image = None\<rparr>]) =
     [\<lparr>left = \<lparr>proc_name = ''A'', proc_image = None, proc_id = ''A'', proc_score = 0\<rparr>,
       right = \<lparr>proc_name = ''B'', proc_image = None, proc_id = ''B'', proc_score = 0\<rparr>,
       winner = None\<rparr>,
      \<lparr>left = \<lparr>proc_name = ''B'', proc_image = None, proc_id = ''B'', proc_score = 0\<rparr>,
       right = \<lparr>proc_name = ''A'', proc_image = None, proc_id = ''A'', proc_score = 0\<rparr>,
       winner = None\<rparr>]"
  unfolding uniqueByName_AB by (simp add: createPairList_def createPairs_def)

section \<open>Properties of the reducer module\<close>

subsection \<open>The reducer on each action\<close>

text \<open>
  What \<^verbatim>\<open>reducer\<close> returns for each action: where \<^verbatim>\<open>state.profiles[state.currentProfile]\<close> is
  not truthy, where it is an inherited member, and where it is a profile.
\<close>

lemma truthy_own: "obj k = Some v \<Longrightarrow> truthy_at obj k"
  by (simp add: truthy_at_def)

lemma reducer_no_profile:
  "\<not> truthy_at (profiles s) (current_key s) \<Longrightarrow>
   reducer now h s (PairVote i w) = (Inl NoProfileSelected, h) \<and>
   reducer now h s (PairSkip i) = (Inl NoProfileSelected, h) \<and>
   reducer now h s (ListResetRows nameMap pairList) = (Inl NoProfileSelected, h)"
  by (simp add: current_key_def)

lemma reducer_inherited:
  "profiles s (current_key s) = None \<Longrightarrow> inherited (current_key s) \<Longrightarrow>
   reducer now h s (PairVote i w) = (Inl TypeError, h) \<and>
   reducer now h s (PairSkip i) = (Inl TypeError, h) \<and>
   reducer now h s (ListResetRows nameMap pairList) = (Inl TypeError, h)"
  by (simp add: current_key_def truthy_at_def)

lemma reducer_vote:
  "profiles s (current_key s) = Some p \<Longrightarrow>
   reducer now h s (PairVote i w) =
     (Inr (s\<lparr>profiles := profiles s ++ assign_map Map.empty (current_key s)
            (p\<lparr>dateTime := now,
               list := listReducer (list p) (PairVote i w) w,
               pairs := splice1 (pairs p) i\<rparr>)\<rparr>), h)"
  by (simp add: current_key_def truthy_at_def)

lemma reducer_skip:
  "profiles s (current_key s) = Some p \<Longrightarrow>
   reducer now h s (PairSkip i) =
     (if 0 \<le> i \<and> i < int (length (pairs p))
      then (Inr (s\<lparr>profiles := profiles s ++ assign_map Map.empty (current_key s)
                    (p\<lparr>dateTime := now\<rparr>)\<rparr>),
            h(pairs p ! nat i :=
                (h (pairs p ! nat i))\<lparr>skipped := incr (skipped (h (pairs p ! nat i)))\<rparr>))
      else (Inl TypeError, h))"
  by (simp add: current_key_def truthy_at_def)

lemma reducer_reset:
  "profiles s (current_key s) = Some p \<Longrightarrow>
   reducer now h s (ListResetRows nameMap pairList) =
     (Inr (s\<lparr>profiles := profiles s ++ assign_map Map.empty (current_key s)
            (p\<lparr>dateTime := now,
               list := list p ++ nameMap,
               pairs := uniquePairs h (pairs p @ pairList)\<rparr>)\<rparr>), h)"
  by (simp add: current_key_def truthy_at_def)

lemma reducer_add:
  "reducer now h s (ProfileAdd newId nm nameMap pairList) =
     (Inr (s\<lparr>currentProfile := Some newId,
            profiles := profiles s ++ assign_map Map.empty newId
              \<lparr>name = nm, list = nameMap, dateTime = now, pairs = pairList,
               totalComparisons = int (length pairList)\<rparr>\<rparr>), h)"
  by simp

lemma splice1_length: "length (splice1 xs i) \<le> length xs"
  by (simp add: splice1_def Let_def)

lemma splice1_valid:
  "0 \<le> i \<Longrightarrow> i < int (length xs) \<Longrightarrow>
   splice1 xs i = take (nat i) xs @ drop (nat i + 1) xs"
  by (simp add: splice1_def Let_def min_def)

lemma reducer_cases:
  obtains (none) "\<not> truthy_at (profiles s) (current_key s)"
  | (inh) "profiles s (current_key s) = None" "inherited (current_key s)"
  | (own) q where "profiles s (current_key s) = Some q"
  by (cases "profiles s (current_key s)") (auto simp: truthy_at_def)

lemma listReducer_vote:
  "listReducer rows (PairVote i w) w =
     (if w = ''__proto__'' then rows
      else rows(w \<mapsto> (case rows w of None \<Rightarrow> no_name
                        | Some row \<Rightarrow> row\<lparr>score := incr (score row)\<rparr>)))"
  by (simp add: spread_assign)

text \<open>
  The example profile is what \<^verbatim>\<open>PROFILE_ADD\<close> creates from the empty state, and three
  votes lead from it to the voted profile.
\<close>

lemma run_add_ABC:
  "run pair_store no_profiles
     [(1, ProfileAdd ''p'' ''P''
            [''A'' \<mapsto> cand ''A'' 0, ''B'' \<mapsto> cand ''B'' 0, ''C'' \<mapsto> cand ''C'' 0] [0, 1, 2])]
   = (Inr (one_profile fresh_ABC), pair_store)"
  by (simp add: assign_map_def)

lemma run_votes_ABC:
  "run pair_store (one_profile fresh_ABC)
     [(2, PairVote 0 ''A''), (3, PairVote 0 ''A''), (4, PairVote 0 ''C'')]
   = (Inr (one_profile voted_ABC), pair_store)"
  by (simp add: truthy_at_def assign_map_def splice1_def round_double_exact fun_upd_twist)

subsection \<open>Switching the current profile\<close>

text \<open>
  Claim C8, the code at the failing input. The empty state has no profile under the key
  \<^verbatim>\<open>toString\<close>, and \<^verbatim>\<open>PROFILE_SET_CURRENT\<close> with that id throws nothing: the test
  \<^verbatim>\<open>!state.profiles[currentProfileId]\<close> finds the inherited function, and the state
  returned has \<^verbatim>\<open>toString\<close> as its current profile.
\<close>

theorem setCurrentProfile_inherited_name:
  "profiles no_profiles ''toString'' = None \<and>
   reducer 1 pair_store no_profiles (ProfileSetCurrent ''toString'') =
     (Inr \<lparr>currentProfile = Some ''toString'', profiles = Map.empty\<rparr>, pair_store)"
  by (simp add: truthy_at_def inherited_def Object_prototype_names_def)

text \<open>
  The reducer of the context module has the same test and returns the same. For an id
  that names no member of \<^verbatim>\<open>Object.prototype\<close> the action throws exactly when the id is no
  key of the profiles, and otherwise changes the current profile only.
\<close>

lemma setCurrentProfile0_inherited_name:
  "reducer0 gen 1 \<lparr>currentProfile0 = None, profiles0 = Map.empty\<rparr>
     (PROFILE_SET_CURRENT ''toString'') =
     Inr \<lparr>currentProfile0 = Some ''toString'', profiles0 = Map.empty\<rparr>"
  by (simp add: truthy_at_def inherited_def Object_prototype_names_def)

lemma setCurrentProfile_other_names:
  "\<not> inherited i \<Longrightarrow>
   reducer now h s (ProfileSetCurrent i) =
     (if i \<in> dom (profiles s) then (Inr (s\<lparr>currentProfile := Some i\<rparr>), h)
      else (Inl (InvalidProfile i), h))"
  by (auto simp: truthy_at_def)

subsection \<open>The invariant of the root state\<close>

text \<open>
  Claim C10, the code at the failing input. In the empty state the current profile is
  \<^verbatim>\<open>null\<close>. \<^verbatim>\<open>PROFILE_SET_CURRENT\<close> with the id \<^verbatim>\<open>toString\<close> returns a state whose current
  profile is \<^verbatim>\<open>toString\<close>, which is no key of its profiles; \<^verbatim>\<open>PROFILE_ADD\<close> with the new id
  \<^verbatim>\<open>__proto__\<close> returns a state whose current profile is \<^verbatim>\<open>__proto__\<close> and stores no profile
  under it.
\<close>

theorem current_profile_broken:
  "current_valid no_profiles \<and>
   reducer 1 pair_store no_profiles (ProfileSetCurrent ''toString'') =
     (Inr \<lparr>currentProfile = Some ''toString'', profiles = Map.empty\<rparr>, pair_store) \<and>
   \<not> current_valid \<lparr>currentProfile = Some ''toString'', profiles = Map.empty\<rparr> \<and>
   reducer 1 pair_store no_profiles
     (ProfileAdd ''__proto__'' ''P'' [''A'' \<mapsto> cand ''A'' 0] []) =
     (Inr \<lparr>currentProfile = Some ''__proto__'', profiles = Map.empty\<rparr>, pair_store) \<and>
   \<not> current_valid \<lparr>currentProfile = Some ''__proto__'', profiles = Map.empty\<rparr>"
  by (simp add: current_valid_def truthy_at_def inherited_def Object_prototype_names_def
        assign_map_def)

subsection \<open>Votes\<close>

lemma total_score_update:
  assumes f: "finite (dom rows)" and w: "rows w = Some row"
  shows "total_score (rows(w \<mapsto> row')) = total_score rows - score_value row + score_value row'"
proof -
  have d: "dom (rows(w \<mapsto> row')) = dom rows" using w by auto
  have win: "w \<in> dom rows" using w by auto
  have "(\<Sum>k \<in> dom rows - {w}. score_value (the ((rows(w \<mapsto> row')) k))) =
        (\<Sum>k \<in> dom rows - {w}. score_value (the (rows k)))"
    by (rule sum.cong) auto
  then show ?thesis
    unfolding total_score_def d
    using w by (simp add: sum.remove [OF f win])
qed

lemma vote_frame:
  assumes v: "valid_vote h s i w" and p: "profiles s (current_key s) = Some p"
    and r: "list p w = Some row" and n: "score row = Num n" and s: "safe n"
  shows "\<exists>p'. reducer now h s (PairVote i w) =
             (Inr (s\<lparr>profiles := (profiles s)(current_key s \<mapsto> p')\<rparr>), h) \<and>
           pairs p' = take (nat i) (pairs p) @ drop (nat i + 1) (pairs p) \<and>
           length (pairs p') + 1 = length (pairs p) \<and>
           list p' w = Some (row\<lparr>score := Num (n + 1)\<rparr>) \<and>
           (\<forall>k. k \<noteq> w \<longrightarrow> list p' k = list p k) \<and>
           totalComparisons p' = totalComparisons p \<and> name p' = name p"
proof -
  from v p have i: "0 \<le> i" "i < int (length (pairs p))"
    and k: "current_key s \<noteq> ''__proto__''" and w: "w \<noteq> ''__proto__''"
    by (auto simp: valid_vote_def)
  have inc: "incr (score row) = Num (n + 1)"
    using n s by (simp add: safe_def incr_safe del: incr.simps)
  let ?p' = "p\<lparr>dateTime := now, list := listReducer (list p) (PairVote i w) w,
               pairs := splice1 (pairs p) i\<rparr>"
  have "reducer now h s (PairVote i w) =
          (Inr (s\<lparr>profiles := (profiles s)(current_key s \<mapsto> ?p')\<rparr>), h)"
    using k by (simp add: reducer_vote [OF p] spread_assign del: reducer.simps listReducer.simps)
  moreover have "pairs ?p' = take (nat i) (pairs p) @ drop (nat i + 1) (pairs p)"
    using i by (simp add: splice1_valid)
  moreover have "length (pairs ?p') + 1 = length (pairs p)"
    using i by (simp add: splice1_valid)
  moreover have "list ?p' w = Some (row\<lparr>score := Num (n + 1)\<rparr>)"
    using r w inc by (simp add: listReducer_vote del: listReducer.simps incr.simps)
  moreover have "\<forall>k. k \<noteq> w \<longrightarrow> list ?p' k = list p k"
    by (simp add: listReducer_vote del: listReducer.simps)
  ultimately show ?thesis by (intro exI [of _ ?p']) simp
qed

lemma vote_step:
  assumes v: "valid_vote h s i w" and p: "profiles s (current_key s) = Some p"
    and f: "finite (dom (list p))"
    and b: "\<forall>row \<in> ran (list p). \<exists>n. score row = Num n \<and> 0 \<le> n \<and> n \<le> c"
    and t: "total_score (list p) = c"
    and small: "c + int (length (pairs p)) < 2 ^ 53"
  shows "\<exists>s' p'. reducer now h s (PairVote i w) = (Inr s', h) \<and>
           current_key s' = current_key s \<and>
           profiles s' (current_key s) = Some p' \<and>
           finite (dom (list p')) \<and>
           (\<forall>row \<in> ran (list p'). \<exists>n. score row = Num n \<and> 0 \<le> n \<and> n \<le> c + 1) \<and>
           total_score (list p') = c + 1 \<and>
           int (length (pairs p')) = int (length (pairs p)) - 1"
proof -
  from v p obtain row where i: "0 \<le> i" "i < int (length (pairs p))"
    and r: "list p w = Some row"
    by (auto simp: valid_vote_def)
  from r have "row \<in> ran (list p)" by (auto simp: ran_def)
  with b obtain n where n: "score row = Num n" and n0: "0 \<le> n" and nc: "n \<le> c" by blast
  from i small nc n0 have s: "safe n" by (simp add: safe_def)
  from vote_frame [OF v p r n s, of now]
  obtain p' where red: "reducer now h s (PairVote i w) =
             (Inr (s\<lparr>profiles := (profiles s)(current_key s \<mapsto> p')\<rparr>), h)"
    and len: "length (pairs p') + 1 = length (pairs p)"
    and lw: "list p' w = Some (row\<lparr>score := Num (n + 1)\<rparr>)"
    and lo: "\<forall>k. k \<noteq> w \<longrightarrow> list p' k = list p k"
    by blast
  have eq: "list p' = (list p)(w \<mapsto> row\<lparr>score := Num (n + 1)\<rparr>)"
    using lw lo by (intro ext) simp
  let ?s' = "s\<lparr>profiles := (profiles s)(current_key s \<mapsto> p')\<rparr>"
  have "current_key ?s' = current_key s" by (simp add: current_key_def)
  moreover have "profiles ?s' (current_key s) = Some p'" by simp
  moreover have "finite (dom (list p'))" using f unfolding eq by simp
  moreover have "\<forall>row \<in> ran (list p'). \<exists>n. score row = Num n \<and> 0 \<le> n \<and> n \<le> c + 1"
  proof
    fix row' assume "row' \<in> ran (list p')"
    then have "row' = row\<lparr>score := Num (n + 1)\<rparr> \<or> row' \<in> ran (list p)"
      unfolding eq by (auto simp: ran_def split: if_splits)
    then show "\<exists>n. score row' = Num n \<and> 0 \<le> n \<and> n \<le> c + 1"
    proof
      assume "row' = row\<lparr>score := Num (n + 1)\<rparr>"
      with n0 nc show ?thesis by simp
    next
      assume "row' \<in> ran (list p)"
      with b obtain m where "score row' = Num m" "0 \<le> m" "m \<le> c" by blast
      then show ?thesis by auto
    qed
  qed
  moreover have "total_score (list p') = c + 1"
    unfolding eq using total_score_update [OF f r] t n by (simp add: score_value_def)
  moreover have "int (length (pairs p')) = int (length (pairs p)) - 1" using len by simp
  ultimately show ?thesis using red by blast
qed

lemma votes_total:
  "valid_votes h s vs \<Longrightarrow> profiles s (current_key s) = Some p \<Longrightarrow>
   finite (dom (list p)) \<Longrightarrow>
   \<forall>row \<in> ran (list p). \<exists>n. score row = Num n \<and> 0 \<le> n \<and> n \<le> c \<Longrightarrow>
   total_score (list p) = c \<Longrightarrow> c + int (length (pairs p)) < 2 ^ 53 \<Longrightarrow>
   \<exists>s' p'. run h s (vote_actions vs) = (Inr s', h) \<and>
     profiles s' (current_key s) = Some p' \<and>
     total_score (list p') = c + int (length vs) \<and>
     int (length (pairs p')) = int (length (pairs p)) - int (length vs)"
proof (induction vs arbitrary: s p c)
  case Nil
  then show ?case by simp
next
  case (Cons v vs)
  obtain now i w where v: "v = (now, i, w)" by (cases v)
  from Cons.prems(1) v have vv: "valid_vote h s i w" by simp
  from vote_step [OF vv Cons.prems(2-6), of now]
  obtain s1 p1 where r: "reducer now h s (PairVote i w) = (Inr s1, h)"
    and k: "current_key s1 = current_key s"
    and p1: "profiles s1 (current_key s) = Some p1"
    and f1: "finite (dom (list p1))"
    and b1: "\<forall>row \<in> ran (list p1). \<exists>n. score row = Num n \<and> 0 \<le> n \<and> n \<le> c + 1"
    and t1: "total_score (list p1) = c + 1"
    and l1: "int (length (pairs p1)) = int (length (pairs p)) - 1"
    by blast
  from Cons.prems(1) v r have vs: "valid_votes h s1 vs" by simp
  from p1 k have p1': "profiles s1 (current_key s1) = Some p1" by simp
  from l1 Cons.prems(6) have small: "c + 1 + int (length (pairs p1)) < 2 ^ 53" by simp
  from Cons.IH [OF vs p1' f1 b1 t1 small] k
  obtain s' p' where "run h s1 (vote_actions vs) = (Inr s', h)"
    "profiles s' (current_key s) = Some p'"
    "total_score (list p') = c + 1 + int (length vs)"
    "int (length (pairs p')) = int (length (pairs p1)) - int (length vs)"
    by auto
  with r l1 v show ?case by simp
qed

lemma total_score_zero:
  "\<forall>row \<in> ran rows. score row = Num 0 \<Longrightarrow> total_score rows = 0"
  unfolding total_score_def
  by (auto simp: score_value_def ran_def intro!: sum.neutral)

text \<open>
  Claim C6, as amended. In a state with a current profile, a vote with an index of the
  pending queue and a winner that is a side of that pair and a candidate of the mapping
  whose score is a safe integer \<open>n\<close> (neither the key of the profile nor the winner being
  \<^verbatim>\<open>__proto__\<close>) removes exactly the pair at the index, so the queue is shorter by one, and
  makes the score of the winner \<open>n + 1\<close>, every other candidate unchanged. Hence, from a
  profile as \<^verbatim>\<open>PROFILE_ADD\<close> creates it from candidates of score 0 and an array of pairs,
  which has fewer than \<open>2 ^ 32\<close> elements, any \<open>k\<close> valid votes in a row run without error
  and leave the sum of all scores at \<open>k\<close>, with \<open>k\<close> pairs fewer pending.
\<close>

theorem vote_effect:
  "(\<forall>p row n. valid_vote h s i w \<and> profiles s (current_key s) = Some p \<and>
       list p w = Some row \<and> score row = Num n \<and> safe n \<longrightarrow>
      (\<exists>p'. reducer now h s (PairVote i w) =
             (Inr (s\<lparr>profiles := (profiles s)(current_key s \<mapsto> p')\<rparr>), h) \<and>
           pairs p' = take (nat i) (pairs p) @ drop (nat i + 1) (pairs p) \<and>
           length (pairs p') + 1 = length (pairs p) \<and>
           list p' w = Some (row\<lparr>score := Num (n + 1)\<rparr>) \<and>
           (\<forall>k. k \<noteq> w \<longrightarrow> list p' k = list p k) \<and>
           totalComparisons p' = totalComparisons p \<and> name p' = name p)) \<and>
   (reducer t0 h0 s0 (ProfileAdd newProfileId nm nameMap pairList) = (Inr s1, h) \<and>
    newProfileId \<noteq> ''__proto__'' \<and> length pairList < 2 ^ 32 \<and>
    finite (dom nameMap) \<and> (\<forall>row \<in> ran nameMap. score row = Num 0) \<and>
    valid_votes h s1 vs \<longrightarrow>
      (\<exists>s' p'. run h s1 (vote_actions vs) = (Inr s', h) \<and>
         profiles s' newProfileId = Some p' \<and>
         total_score (list p') = int (length vs) \<and>
         int (length (pairs p')) = int (length pairList) - int (length vs)))"
proof (intro conjI allI impI)
  fix p row n
  assume "valid_vote h s i w \<and> profiles s (current_key s) = Some p \<and>
       list p w = Some row \<and> score row = Num n \<and> safe n"
  then show "\<exists>p'. reducer now h s (PairVote i w) =
             (Inr (s\<lparr>profiles := (profiles s)(current_key s \<mapsto> p')\<rparr>), h) \<and>
           pairs p' = take (nat i) (pairs p) @ drop (nat i + 1) (pairs p) \<and>
           length (pairs p') + 1 = length (pairs p) \<and>
           list p' w = Some (row\<lparr>score := Num (n + 1)\<rparr>) \<and>
           (\<forall>k. k \<noteq> w \<longrightarrow> list p' k = list p k) \<and>
           totalComparisons p' = totalComparisons p \<and> name p' = name p"
    using vote_frame by blast
next
  assume a: "reducer t0 h0 s0 (ProfileAdd newProfileId nm nameMap pairList) = (Inr s1, h) \<and>
    newProfileId \<noteq> ''__proto__'' \<and> length pairList < 2 ^ 32 \<and>
    finite (dom nameMap) \<and> (\<forall>row \<in> ran nameMap. score row = Num 0) \<and>
    valid_votes h s1 vs"
  let ?p = "\<lparr>name = nm, list = nameMap, dateTime = t0, pairs = pairList,
             totalComparisons = int (length pairList)\<rparr>"
  from a have nk: "newProfileId \<noteq> ''__proto__''" by (elim conjE)
  from a have r: "reducer t0 h0 s0 (ProfileAdd newProfileId nm nameMap pairList) = (Inr s1, h)"
    by (elim conjE)
  from r nk have s1: "s1 = s0\<lparr>currentProfile := Some newProfileId,
                          profiles := (profiles s0)(newProfileId \<mapsto> ?p)\<rparr>"
    unfolding reducer_add spread_assign by (simp only: if_False prod.inject sum.inject)
  then have k: "current_key s1 = newProfileId" and p: "profiles s1 (current_key s1) = Some ?p"
    by (simp_all add: current_key_def)
  from a have fin: "finite (dom nameMap)" by (elim conjE)
  from a have zero: "\<forall>row \<in> ran nameMap. score row = Num 0" by (elim conjE)
  from fin have f: "finite (dom (list ?p))" by simp
  from zero total_score_zero [of nameMap] have z: "total_score (list ?p) = 0" by simp
  from zero have b: "\<forall>row \<in> ran (list ?p). \<exists>n. score row = Num n \<and> 0 \<le> n \<and> n \<le> 0"
    by simp
  from a have "length pairList < 2 ^ 32" by (elim conjE)
  then have small: "0 + int (length (pairs ?p)) < 2 ^ 53" by simp
  from a have v: "valid_votes h s1 vs" by (elim conjE)
  from votes_total [OF v p f b z small] k
  show "\<exists>s' p'. run h s1 (vote_actions vs) = (Inr s', h) \<and>
         profiles s' newProfileId = Some p' \<and>
         total_score (list p') = int (length vs) \<and>
         int (length (pairs p')) = int (length pairList) - int (length vs)"
    by simp
qed

text \<open>
  Claim C6, witness: the first vote on the example profile, and its three votes.
\<close>

theorem vote_effect_witness:
  "(\<exists>p'. reducer 2 pair_store (one_profile fresh_ABC) (PairVote 0 ''A'') =
           (Inr (one_profile p'), pair_store) \<and>
      pairs p' = [1, 2] \<and> list p' ''A'' = Some (cand ''A'' 1) \<and>
      list p' ''B'' = Some (cand ''B'' 0)) \<and>
   (\<exists>s' p'. run pair_store (one_profile fresh_ABC)
       (vote_actions [(2, 0, ''A''), (3, 0, ''A''), (4, 0, ''C'')]) = (Inr s', pair_store) \<and>
      profiles s' ''p'' = Some p' \<and> total_score (list p') = 3 \<and> int (length (pairs p')) = 0)"
proof -
  note t = vote_effect [of pair_store "one_profile fresh_ABC" 0 "''A''" 2
        1 pair_store no_profiles "''p''" "''P''"
        "[''A'' \<mapsto> cand ''A'' 0, ''B'' \<mapsto> cand ''B'' 0, ''C'' \<mapsto> cand ''C'' 0]" "[0, 1, 2]"
        "one_profile fresh_ABC" "[(2, 0, ''A''), (3, 0, ''A''), (4, 0, ''C'')]"]
  have h1: "valid_vote pair_store (one_profile fresh_ABC) 0 ''A'' \<and>
            profiles (one_profile fresh_ABC) (current_key (one_profile fresh_ABC)) = Some fresh_ABC \<and>
            list fresh_ABC ''A'' = Some (cand ''A'' 0) \<and> score (cand ''A'' 0) = Num 0 \<and> safe 0"
    by (simp add: valid_vote_def current_key_def safe_def)
  from t [THEN conjunct1, rule_format, OF h1] obtain p' where
    r: "reducer 2 pair_store (one_profile fresh_ABC) (PairVote 0 ''A'') =
         (Inr ((one_profile fresh_ABC)\<lparr>profiles := (profiles (one_profile fresh_ABC))
                 (current_key (one_profile fresh_ABC) \<mapsto> p')\<rparr>), pair_store)"
    and q: "pairs p' = take (nat 0) (pairs fresh_ABC) @ drop (nat 0 + 1) (pairs fresh_ABC)"
    and a: "list p' ''A'' = Some ((cand ''A'' 0)\<lparr>score := Num (0 + 1)\<rparr>)"
    and o: "\<forall>k. k \<noteq> ''A'' \<longrightarrow> list p' k = list fresh_ABC k"
    by (elim exE conjE)
  from o have b: "list p' ''B'' = Some (cand ''B'' 0)" by simp
  have 1: "\<exists>p'. reducer 2 pair_store (one_profile fresh_ABC) (PairVote 0 ''A'') =
           (Inr (one_profile p'), pair_store) \<and>
      pairs p' = [1, 2] \<and> list p' ''A'' = Some (cand ''A'' 1) \<and>
      list p' ''B'' = Some (cand ''B'' 0)"
    using r q a b by (intro exI [of _ p']) (simp add: current_key_def del: reducer.simps)
  have vs: "valid_votes pair_store (one_profile fresh_ABC)
              [(2, 0, ''A''), (3, 0, ''A''), (4, 0, ''C'')]"
    by (simp add: valid_vote_def current_key_def truthy_at_def assign_map_def splice1_def
          round_double_exact)
  have add: "reducer 1 pair_store no_profiles
      (ProfileAdd ''p'' ''P''
         [''A'' \<mapsto> cand ''A'' 0, ''B'' \<mapsto> cand ''B'' 0, ''C'' \<mapsto> cand ''C'' 0] [0, 1, 2])
      = (Inr (one_profile fresh_ABC), pair_store)"
    by (simp add: assign_map_def)
  have z: "\<forall>row \<in> ran [''A'' \<mapsto> cand ''A'' 0, ''B'' \<mapsto> cand ''B'' 0, ''C'' \<mapsto> cand ''C'' 0].
             score row = Num 0"
    by (auto simp: ran_def split: if_splits)
  have fin: "finite (dom [''A'' \<mapsto> cand ''A'' 0, ''B'' \<mapsto> cand ''B'' 0, ''C'' \<mapsto> cand ''C'' 0])"
    by simp
  have len: "length [0::nat, 1, 2] < 2 ^ 32" by simp
  have np: "''p'' \<noteq> ''__proto__''" by simp
  have h2: "reducer 1 pair_store no_profiles
      (ProfileAdd ''p'' ''P''
         [''A'' \<mapsto> cand ''A'' 0, ''B'' \<mapsto> cand ''B'' 0, ''C'' \<mapsto> cand ''C'' 0] [0, 1, 2])
      = (Inr (one_profile fresh_ABC), pair_store) \<and>
    ''p'' \<noteq> ''__proto__'' \<and> length [0::nat, 1, 2] < 2 ^ 32 \<and>
    finite (dom [''A'' \<mapsto> cand ''A'' 0, ''B'' \<mapsto> cand ''B'' 0, ''C'' \<mapsto> cand ''C'' 0]) \<and>
    (\<forall>row \<in> ran [''A'' \<mapsto> cand ''A'' 0, ''B'' \<mapsto> cand ''B'' 0, ''C'' \<mapsto> cand ''C'' 0].
             score row = Num 0) \<and>
    valid_votes pair_store (one_profile fresh_ABC) [(2, 0, ''A''), (3, 0, ''A''), (4, 0, ''C'')]"
    using add np len fin z vs by (intro conjI)
  from t [THEN conjunct2, rule_format, OF h2]
  have 2: "\<exists>s' p'. run pair_store (one_profile fresh_ABC)
       (vote_actions [(2, 0, ''A''), (3, 0, ''A''), (4, 0, ''C'')]) = (Inr s', pair_store) \<and>
      profiles s' ''p'' = Some p' \<and> total_score (list p') = 3 \<and> int (length (pairs p')) = 0"
    by (simp del: run.simps reducer.simps vote_actions.simps)
  from 1 2 show ?thesis by (rule conjI)
qed

text \<open>
  Claim C6, counterexample to the claim as stated. A is a side of the pending pair and a
  candidate with the score \<open>2 ^ 53\<close>; the vote for A removes the pair and leaves the score
  as it is, since \<open>2 ^ 53 + 1\<close> is no double. B is a side of the pending pair and a key of
  the mapping, with the entry that a vote for an unknown id leaves; the vote for B
  leaves its score at \<^verbatim>\<open>NaN\<close>.
\<close>

theorem vote_score_counterexample:
  "reducer 2 pair_store
     (one_profile
        \<lparr>name = ''P'',
         list = [''A'' \<mapsto> cand ''A'' 9007199254740992, ''B'' \<mapsto> cand ''B'' 0],
         dateTime = 1, pairs = [0], totalComparisons = 1\<rparr>)
     (PairVote 0 ''A'') =
     (Inr (one_profile
        \<lparr>name = ''P'',
         list = [''A'' \<mapsto> cand ''A'' 9007199254740992, ''B'' \<mapsto> cand ''B'' 0],
         dateTime = 2, pairs = [], totalComparisons = 1\<rparr>), pair_store) \<and>
   reducer 2 pair_store
     (one_profile
        \<lparr>name = ''P'', list = [''A'' \<mapsto> cand ''A'' 0, ''B'' \<mapsto> no_name],
         dateTime = 1, pairs = [0], totalComparisons = 1\<rparr>)
     (PairVote 0 ''B'') =
     (Inr (one_profile
        \<lparr>name = ''P'', list = [''A'' \<mapsto> cand ''A'' 0, ''B'' \<mapsto> no_name],
         dateTime = 2, pairs = [], totalComparisons = 1\<rparr>), pair_store)"
  by (simp add: truthy_at_def assign_map_def splice1_def round_double_above fun_upd_twist)

text \<open>
  Claim C5, as amended. A vote raises no error for a pair index outside the queue or for
  an unknown winner: with a profile under the current key it returns a state for every
  index and every winner id. The queue is spliced at the index, which removes nothing
  for an index at or beyond the length; the entry of the winner gets its score
  incremented, a winner that is no key of the mapping gets a new entry with the score
  \<^verbatim>\<open>NaN\<close>, and for the winner \<^verbatim>\<open>__proto__\<close> the mapping stays as it is. A vote fails only
  where the current key holds no profile: with the error for no selected profile where
  \<^verbatim>\<open>state.profiles[state.currentProfile]\<close> is not truthy, and with a \<^verbatim>\<open>TypeError\<close> where the
  current key names an inherited member. Either is thrown before anything is written:
  the store is the one passed in.
\<close>

theorem vote_never_rejects:
  "(\<not> truthy_at (profiles s) (current_key s) \<longrightarrow>
      reducer now h s (PairVote i w) = (Inl NoProfileSelected, h)) \<and>
   (profiles s (current_key s) = None \<and> inherited (current_key s) \<longrightarrow>
      reducer now h s (PairVote i w) = (Inl TypeError, h)) \<and>
   (\<forall>p. profiles s (current_key s) = Some p \<longrightarrow>
      (\<exists>p'. reducer now h s (PairVote i w) =
               (Inr (s\<lparr>profiles := profiles s ++ assign_map Map.empty (current_key s) p'\<rparr>), h) \<and>
            pairs p' = splice1 (pairs p) i \<and>
            (int (length (pairs p)) \<le> i \<longrightarrow> pairs p' = pairs p) \<and>
            (w = ''__proto__'' \<longrightarrow> list p' = list p) \<and>
            (w \<noteq> ''__proto__'' \<and> list p w = None \<longrightarrow> list p' = (list p)(w \<mapsto> no_name)) \<and>
            (\<forall>row. w \<noteq> ''__proto__'' \<and> list p w = Some row \<longrightarrow>
               list p' = (list p)(w \<mapsto> row\<lparr>score := incr (score row)\<rparr>))))"
proof (intro conjI allI impI)
  assume "\<not> truthy_at (profiles s) (current_key s)"
  then show "reducer now h s (PairVote i w) = (Inl NoProfileSelected, h)"
    by (simp del: reducer.simps add: reducer_no_profile)
next
  assume "profiles s (current_key s) = None \<and> inherited (current_key s)"
  then show "reducer now h s (PairVote i w) = (Inl TypeError, h)"
    by (simp del: reducer.simps add: reducer_inherited)
next
  fix p
  assume p: "profiles s (current_key s) = Some p"
  let ?p' = "p\<lparr>dateTime := now, list := listReducer (list p) (PairVote i w) w,
               pairs := splice1 (pairs p) i\<rparr>"
  have "reducer now h s (PairVote i w) =
          (Inr (s\<lparr>profiles := profiles s ++ assign_map Map.empty (current_key s) ?p'\<rparr>), h)"
    by (rule reducer_vote [OF p])
  moreover have "int (length (pairs p)) \<le> i \<longrightarrow> pairs ?p' = pairs p"
    by (simp add: splice1_def Let_def)
  moreover have "w = ''__proto__'' \<longrightarrow> list ?p' = list p"
    by (simp add: listReducer_vote del: listReducer.simps)
  moreover have "w \<noteq> ''__proto__'' \<and> list p w = None \<longrightarrow> list ?p' = (list p)(w \<mapsto> no_name)"
    by (simp add: listReducer_vote del: listReducer.simps)
  moreover have "\<forall>row. w \<noteq> ''__proto__'' \<and> list p w = Some row \<longrightarrow>
               list ?p' = (list p)(w \<mapsto> row\<lparr>score := incr (score row)\<rparr>)"
    by (simp add: listReducer_vote del: listReducer.simps)
  ultimately show "\<exists>p'. reducer now h s (PairVote i w) =
               (Inr (s\<lparr>profiles := profiles s ++ assign_map Map.empty (current_key s) p'\<rparr>), h) \<and>
            pairs p' = splice1 (pairs p) i \<and>
            (int (length (pairs p)) \<le> i \<longrightarrow> pairs p' = pairs p) \<and>
            (w = ''__proto__'' \<longrightarrow> list p' = list p) \<and>
            (w \<noteq> ''__proto__'' \<and> list p w = None \<longrightarrow> list p' = (list p)(w \<mapsto> no_name)) \<and>
            (\<forall>row. w \<noteq> ''__proto__'' \<and> list p w = Some row \<longrightarrow>
               list p' = (list p)(w \<mapsto> row\<lparr>score := incr (score row)\<rparr>))"
    by (intro exI [of _ ?p']) simp
qed

text \<open>
  Claim C5, witness: a vote on the empty state is rejected for the missing profile, a vote
  under the current profile \<^verbatim>\<open>constructor\<close> throws a \<^verbatim>\<open>TypeError\<close>, and a vote on the example
  profile with the index 3 and the unknown winner Z returns a state.
\<close>

theorem vote_never_rejects_witness:
  "reducer 2 pair_store no_profiles (PairVote 0 ''A'') = (Inl NoProfileSelected, pair_store) \<and>
   reducer 2 pair_store \<lparr>currentProfile = Some ''constructor'', profiles = Map.empty\<rparr>
     (PairVote 0 ''A'') = (Inl TypeError, pair_store) \<and>
   (\<exists>p'. reducer 2 pair_store (one_profile fresh_ABC) (PairVote 3 ''Z'') =
            (Inr (one_profile p'), pair_store) \<and>
          pairs p' = [0, 1, 2] \<and>
          list p' = (list fresh_ABC)(''Z'' \<mapsto> no_name))"
proof -
  have a: "\<not> truthy_at (profiles no_profiles) (current_key no_profiles)"
    by (simp add: truthy_at_def current_key_def inherited_def Object_prototype_names_def)
  have b: "profiles \<lparr>currentProfile = Some ''constructor'', profiles = Map.empty\<rparr>
             (current_key \<lparr>currentProfile = Some ''constructor'', profiles = Map.empty\<rparr>) = None \<and>
           inherited (current_key \<lparr>currentProfile = Some ''constructor'', profiles = Map.empty\<rparr>)"
    by (simp add: current_key_def inherited_def Object_prototype_names_def)
  have c: "profiles (one_profile fresh_ABC) (current_key (one_profile fresh_ABC)) = Some fresh_ABC"
    by (simp add: current_key_def)
  from vote_never_rejects [of no_profiles 2 pair_store 0 "''A''"] a
  have 1: "reducer 2 pair_store no_profiles (PairVote 0 ''A'') = (Inl NoProfileSelected, pair_store)"
    by blast
  from vote_never_rejects
    [of "\<lparr>currentProfile = Some ''constructor'', profiles = Map.empty\<rparr>" 2 pair_store 0 "''A''"] b
  have 2: "reducer 2 pair_store \<lparr>currentProfile = Some ''constructor'', profiles = Map.empty\<rparr>
     (PairVote 0 ''A'') = (Inl TypeError, pair_store)"
    by blast
  from vote_never_rejects [of "one_profile fresh_ABC" 2 pair_store 3 "''Z''"] c
  obtain p' where r: "reducer 2 pair_store (one_profile fresh_ABC) (PairVote 3 ''Z'') =
        (Inr ((one_profile fresh_ABC)\<lparr>profiles := profiles (one_profile fresh_ABC) ++
            assign_map Map.empty (current_key (one_profile fresh_ABC)) p'\<rparr>), pair_store)"
    and q: "int (length (pairs fresh_ABC)) \<le> 3 \<longrightarrow> pairs p' = pairs fresh_ABC"
    and l: "''Z'' \<noteq> ''__proto__'' \<and> list fresh_ABC ''Z'' = None \<longrightarrow>
              list p' = (list fresh_ABC)(''Z'' \<mapsto> no_name)"
    by blast
  from q have q': "pairs p' = [0, 1, 2]" by simp
  from l have l': "list p' = (list fresh_ABC)(''Z'' \<mapsto> no_name)" by simp
  have 3: "\<exists>p'. reducer 2 pair_store (one_profile fresh_ABC) (PairVote 3 ''Z'') =
            (Inr (one_profile p'), pair_store) \<and>
          pairs p' = [0, 1, 2] \<and>
          list p' = (list fresh_ABC)(''Z'' \<mapsto> no_name)"
    using r q' l' by (intro exI [of _ p']) (simp add: current_key_def assign_map_def del: reducer.simps)
  from 1 2 3 show ?thesis by (intro conjI)
qed

text \<open>
  Claim C5, counterexample to the claim as stated. On the example profile, a vote with
  the index 3, which is no index of the three pending pairs, returns a state in which A
  has a point more; a vote on the pair of A and B for C, which is no side of it, removes
  the pair and gives C the point; and a vote for the unknown Z returns a state too.
\<close>

theorem vote_rejects_counterexample:
  "reducer 2 pair_store (one_profile fresh_ABC) (PairVote 3 ''A'') =
     (Inr (one_profile
       \<lparr>name = ''P'',
        list = [''A'' \<mapsto> cand ''A'' 1, ''B'' \<mapsto> cand ''B'' 0, ''C'' \<mapsto> cand ''C'' 0],
        dateTime = 2, pairs = [0, 1, 2], totalComparisons = 3\<rparr>), pair_store) \<and>
   reducer 2 pair_store (one_profile fresh_ABC) (PairVote 0 ''C'') =
     (Inr (one_profile
       \<lparr>name = ''P'',
        list = [''A'' \<mapsto> cand ''A'' 0, ''B'' \<mapsto> cand ''B'' 0, ''C'' \<mapsto> cand ''C'' 1],
        dateTime = 2, pairs = [1, 2], totalComparisons = 3\<rparr>), pair_store) \<and>
   reducer 2 pair_store (one_profile fresh_ABC) (PairVote 0 ''Z'') =
     (Inr (one_profile
       \<lparr>name = ''P'',
        list = [''A'' \<mapsto> cand ''A'' 0, ''B'' \<mapsto> cand ''B'' 0, ''C'' \<mapsto> cand ''C'' 0,
                ''Z'' \<mapsto> no_name],
        dateTime = 2, pairs = [1, 2], totalComparisons = 3\<rparr>), pair_store)"
  by (simp add: truthy_at_def assign_map_def splice1_def round_double_exact fun_upd_twist)

subsection \<open>Skips\<close>

text \<open>
  Claim C7, as amended. In a state with a current profile, a skip with an index of the
  pending queue leaves the queue of that profile, which is its length, its pairs and
  their order, the candidate mapping with every score, the total of comparisons and
  every other profile as they are. The one object written is the pair at the index: its
  id and sides stay, and its counter of skips is incremented as a double, which for a
  counter that is a safe integer \<open>n\<close> gives \<open>n + 1\<close>. The pair is written in place, so the
  new counter shows wherever that object is held; every other pair object is as it
  was.
\<close>

theorem skip_effect:
  assumes p: "profiles s (current_key s) = Some p"
    and i: "0 \<le> i" "i < int (length (pairs p))"
  shows "\<exists>s' h' p'. reducer now h s (PairSkip i) = (Inr s', h') \<and>
           currentProfile s' = currentProfile s \<and>
           profiles s' (current_key s) = Some p' \<and>
           (\<forall>k. k \<noteq> current_key s \<longrightarrow> profiles s' k = profiles s k) \<and>
           pairs p' = pairs p \<and> list p' = list p \<and>
           totalComparisons p' = totalComparisons p \<and> name p' = name p \<and>
           (\<forall>r. r \<noteq> pairs p ! nat i \<longrightarrow> h' r = h r) \<and>
           pair_id (h' (pairs p ! nat i)) = pair_id (h (pairs p ! nat i)) \<and>
           leftId (h' (pairs p ! nat i)) = leftId (h (pairs p ! nat i)) \<and>
           rightId (h' (pairs p ! nat i)) = rightId (h (pairs p ! nat i)) \<and>
           skipped (h' (pairs p ! nat i)) = incr (skipped (h (pairs p ! nat i))) \<and>
           (\<forall>n. skipped (h (pairs p ! nat i)) = Num n \<and> safe n \<longrightarrow>
              skipped (h' (pairs p ! nat i)) = Num (n + 1))"
proof -
  let ?r = "pairs p ! nat i"
  let ?h' = "h(?r := (h ?r)\<lparr>skipped := incr (skipped (h ?r))\<rparr>)"
  let ?s' = "s\<lparr>profiles := profiles s ++ assign_map Map.empty (current_key s)
                 (p\<lparr>dateTime := now\<rparr>)\<rparr>"
  have r: "reducer now h s (PairSkip i) = (Inr ?s', ?h')"
    using i by (simp only: reducer_skip [OF p] if_True simp_thms)
  obtain p' where p': "profiles ?s' (current_key s) = Some p'"
    and same: "pairs p' = pairs p" "list p' = list p"
      "totalComparisons p' = totalComparisons p" "name p' = name p"
    using p by (cases "current_key s = ''__proto__''") (simp_all add: spread_assign)
  have others: "\<forall>k. k \<noteq> current_key s \<longrightarrow> profiles ?s' k = profiles s k"
    by (simp add: spread_assign)
  have safe_step: "\<forall>n. skipped (h ?r) = Num n \<and> safe n \<longrightarrow> skipped (?h' ?r) = Num (n + 1)"
    by (simp add: safe_def incr_safe del: incr.simps)
  have "currentProfile ?s' = currentProfile s" by simp
  moreover have "\<forall>r. r \<noteq> ?r \<longrightarrow> ?h' r = h r" by simp
  moreover have "pair_id (?h' ?r) = pair_id (h ?r)" "leftId (?h' ?r) = leftId (h ?r)"
    "rightId (?h' ?r) = rightId (h ?r)" "skipped (?h' ?r) = incr (skipped (h ?r))"
    by simp_all
  ultimately show ?thesis using r p' same others safe_step
    by (intro exI [of _ ?s'] exI [of _ ?h'] exI [of _ p'] conjI)
qed

text \<open>
  Claim C7, witness: a skip of the second pair of the example profile.
\<close>

theorem skip_effect_witness:
  "\<exists>s' h' p'. reducer 2 pair_store (one_profile fresh_ABC) (PairSkip 1) = (Inr s', h') \<and>
     profiles s' ''p'' = Some p' \<and> pairs p' = [0, 1, 2] \<and> list p' = list fresh_ABC \<and>
     h' 0 = AB \<and> h' 2 = BC \<and> skipped (h' 1) = Num 1"
proof -
  have p: "profiles (one_profile fresh_ABC) (current_key (one_profile fresh_ABC)) = Some fresh_ABC"
    by (simp add: current_key_def)
  have i: "0 \<le> (1::int)" "(1::int) < int (length (pairs fresh_ABC))" by simp_all
  from skip_effect [OF p i, of 2 pair_store] obtain s' h' p' where
    r: "reducer 2 pair_store (one_profile fresh_ABC) (PairSkip 1) = (Inr s', h')"
    and q: "profiles s' (current_key (one_profile fresh_ABC)) = Some p'"
    and l: "pairs p' = pairs fresh_ABC" "list p' = list fresh_ABC"
    and o: "\<forall>r. r \<noteq> pairs fresh_ABC ! nat 1 \<longrightarrow> h' r = pair_store r"
    and c: "\<forall>n. skipped (pair_store (pairs fresh_ABC ! nat 1)) = Num n \<and> safe n \<longrightarrow>
              skipped (h' (pairs fresh_ABC ! nat 1)) = Num (n + 1)"
    by (elim exE conjE)
  from o have o': "h' 0 = AB" "h' 2 = BC" by simp_all
  from c have c': "skipped (h' 1) = Num 1" by (simp add: safe_def)
  from q have q': "profiles s' ''p'' = Some p'" by (simp add: current_key_def)
  from l have l': "pairs p' = [0, 1, 2]" by simp
  show ?thesis using r q' l' l(2) o' c'
    by (intro exI [of _ s'] exI [of _ h'] exI [of _ p'] conjI)
qed

text \<open>
  Claim C7, counterexample to the claim as stated: the first pair of the example profile
  has been skipped \<open>2 ^ 53\<close> times, and one more skip leaves its counter as it is.
\<close>

theorem skip_counter_counterexample:
  "reducer 2 (pair_store(0 := AB\<lparr>skipped := Num 9007199254740992\<rparr>))
     (one_profile fresh_ABC) (PairSkip 0) =
     (Inr (one_profile
        \<lparr>name = ''P'',
         list = [''A'' \<mapsto> cand ''A'' 0, ''B'' \<mapsto> cand ''B'' 0, ''C'' \<mapsto> cand ''C'' 0],
         dateTime = 2, pairs = [0, 1, 2], totalComparisons = 3\<rparr>),
      pair_store(0 := AB\<lparr>skipped := Num 9007199254740992\<rparr>))"
  by (simp add: truthy_at_def assign_map_def round_double_above fun_upd_twist)

subsection \<open>Resetting rows\<close>

text \<open>
  The filter of \<^verbatim>\<open>LIST_RESET_ROWS\<close> keeps the first pair of every id.
\<close>

lemma findIndex_from_eq:
  "findIndex_from f i xs =
     (if \<exists>x \<in> set xs. f x then i + int (length (takeWhile (\<lambda>x. \<not> f x) xs)) else -1)"
  by (induction xs arbitrary: i) auto

lemma takeWhile_shorter:
  "\<exists>x \<in> set xs. \<not> P x \<Longrightarrow> length (takeWhile P xs) < length xs"
  by (induction xs) auto

lemma findIndex_at:
  "f y \<Longrightarrow> (findIndex f (pre @ y # post) = int (length pre)) = (\<forall>x \<in> set pre. \<not> f x)"
proof -
  assume y: "f y"
  show ?thesis
  proof (cases "\<forall>x \<in> set pre. \<not> f x")
    case True
    then have "takeWhile (\<lambda>x. \<not> f x) (pre @ y # post) = pre"
      using y by (simp add: takeWhile_append2)
    with True y show ?thesis by (simp add: findIndex_def findIndex_from_eq)
  next
    case False
    then have "takeWhile (\<lambda>x. \<not> f x) (pre @ y # post) = takeWhile (\<lambda>x. \<not> f x) pre"
      by (auto simp: takeWhile_append1)
    moreover have "length (takeWhile (\<lambda>x. \<not> f x) pre) < length pre"
      using False by (simp add: takeWhile_shorter)
    ultimately show ?thesis using False y by (auto simp: findIndex_def findIndex_from_eq)
  qed
qed

lemma filter_from_first:
  "filter_from (\<lambda>x index. findIndex (\<lambda>y. g y = g x) (pre @ ys) = index) (int (length pre)) ys
   = first_by g (g ` set pre) ys"
proof (induction ys arbitrary: pre)
  case Nil
  then show ?case by simp
next
  case (Cons y ys)
  have here: "(findIndex (\<lambda>z. g z = g y) (pre @ y # ys) = int (length pre))
                = (g y \<notin> g ` set pre)"
    using findIndex_at [of "\<lambda>z. g z = g y" y pre ys] by (auto simp: image_iff)
  have rest: "filter_from (\<lambda>x index. findIndex (\<lambda>y. g y = g x) (pre @ y # ys) = index)
                (int (length pre) + 1) ys
              = first_by g (insert (g y) (g ` set pre)) ys"
    using Cons.IH [of "pre @ [y]"] by (simp add: add.commute)
  show ?case
  proof (cases "g y \<in> g ` set pre")
    case True
    then have "insert (g y) (g ` set pre) = g ` set pre" by auto
    with True here rest show ?thesis by simp
  next
    case False
    with here rest show ?thesis by simp
  qed
qed

lemma uniquePairs_first: "uniquePairs h xs = first_by (\<lambda>r. pair_id (h r)) {} xs"
  unfolding uniquePairs_def filter_indexed_def
  using filter_from_first [of "\<lambda>r. pair_id (h r)" "[]" xs] by simp

lemma first_by_keys: "g ` set (first_by g seen xs) = g ` set xs - seen"
  by (induction g seen xs rule: first_by.induct) auto

lemma first_by_subset: "set (first_by g seen xs) \<subseteq> set xs"
  by (induction g seen xs rule: first_by.induct) auto

lemma first_by_distinct: "distinct (map g (first_by g seen xs))"
  by (induction g seen xs rule: first_by.induct) (auto simp: first_by_keys)

lemma first_by_append:
  "first_by g seen (xs @ ys) = first_by g seen xs @ first_by g (seen \<union> g ` set xs) ys"
proof (induction g seen xs rule: first_by.induct)
  case (1 g seen)
  then show ?case by simp
next
  case (2 g seen x rest)
  show ?case
  proof (cases "g x \<in> seen")
    case True
    then have "seen \<union> g ` set (x # rest) = seen \<union> g ` set rest" by auto
    with True 2 show ?thesis by simp
  next
    case False
    have "seen \<union> g ` set (x # rest) = insert (g x) seen \<union> g ` set rest" by auto
    with False 2 show ?thesis by simp
  qed
qed

lemma first_by_same:
  "distinct (map g xs) \<Longrightarrow> g ` set xs \<inter> seen = {} \<Longrightarrow> first_by g seen xs = xs"
  by (induction g seen xs rule: first_by.induct) auto

lemma first_by_none: "g ` set xs \<subseteq> seen \<Longrightarrow> first_by g seen xs = []"
  by (induction g seen xs rule: first_by.induct) auto

lemma uniquePairs_distinct: "distinct (map (\<lambda>r. pair_id (h r)) (uniquePairs h xs))"
  by (simp add: uniquePairs_first first_by_distinct)

lemma uniquePairs_append:
  "distinct (map (\<lambda>r. pair_id (h r)) xs) \<Longrightarrow>
   uniquePairs h (xs @ ys) = xs @ first_by (\<lambda>r. pair_id (h r)) ((\<lambda>r. pair_id (h r)) ` set xs) ys"
  by (simp add: uniquePairs_first first_by_append first_by_same)

lemma uniquePairs_again:
  "uniquePairs h (uniquePairs h (xs @ ys) @ ys) = uniquePairs h (xs @ ys)"
proof -
  let ?g = "\<lambda>r. pair_id (h r)"
  let ?u = "uniquePairs h (xs @ ys)"
  have "?g ` set ys \<subseteq> ?g ` set ?u"
    by (auto simp: uniquePairs_first first_by_keys)
  then have "first_by ?g (?g ` set ?u) ys = []" by (rule first_by_none)
  then show ?thesis
    using uniquePairs_append [OF uniquePairs_distinct, of h "xs @ ys" ys] by simp
qed

text \<open>
  A reset of rows never writes the total of comparisons.
\<close>

lemma reset_totalComparisons:
  "profiles s (current_key s) = Some p \<Longrightarrow>
   reducer now h s (ListResetRows nameMap pairList) = (Inr s', h') \<Longrightarrow>
   map_option totalComparisons (profiles s' (current_key s)) = Some (totalComparisons p)"
  unfolding reducer_reset [of s p] by (auto simp: spread_assign)

text \<open>
  Claim C2, the code at the failing input. The profile of A, B and C is fully voted and
  has the total 3; resetting the rows A and D with the new pair of A and D appends that
  pair to the queue, and the total stays 3 where the claim says 4.
\<close>

theorem reset_total_stale:
  "reducer 5 pair_store (one_profile voted_ABC)
      (ListResetRows [''A'' \<mapsto> cand ''A'' 0, ''D'' \<mapsto> cand ''D'' 0] [3])
   = (Inr (one_profile
       \<lparr>name = ''P'',
        list = [''A'' \<mapsto> cand ''A'' 0, ''B'' \<mapsto> cand ''B'' 0, ''C'' \<mapsto> cand ''C'' 1,
                ''D'' \<mapsto> cand ''D'' 0],
        dateTime = 5, pairs = [3], totalComparisons = 3\<rparr>), pair_store)"
  by (simp add: truthy_at_def assign_map_def uniquePairs_def filter_indexed_def findIndex_def
        fun_upd_twist)

text \<open>
  Claim C3, as amended. In a state with a current profile, under a key other than
  \<^verbatim>\<open>__proto__\<close>, a reset of rows leaves a queue in which no pair id occurs twice; if the ids
  of the pending pairs were distinct, the queue is the old one followed by pairs of the
  action whose ids were not pending, so no pair is added whose id is pending. A second
  reset with the same rows and pairs leaves the queue of the first. The profile keeps no
  record of the pairs that were voted, and nothing is said here about them.
\<close>

theorem reset_rows_pairs:
  assumes p: "profiles s (current_key s) = Some p"
    and k: "current_key s \<noteq> ''__proto__''"
  shows "\<exists>s' p'. reducer now h s (ListResetRows nameMap pairList) = (Inr s', h) \<and>
           current_key s' = current_key s \<and>
           profiles s' (current_key s) = Some p' \<and>
           distinct (map (\<lambda>r. pair_id (h r)) (pairs p')) \<and>
           (distinct (map (\<lambda>r. pair_id (h r)) (pairs p)) \<longrightarrow>
              (\<exists>added. pairs p' = pairs p @ added \<and> set added \<subseteq> set pairList \<and>
                 (\<lambda>r. pair_id (h r)) ` set added \<inter> (\<lambda>r. pair_id (h r)) ` set (pairs p) = {})) \<and>
           (\<exists>s'' p''. reducer now' h s' (ListResetRows nameMap pairList) = (Inr s'', h) \<and>
              profiles s'' (current_key s) = Some p'' \<and> pairs p'' = pairs p')"
proof -
  let ?g = "\<lambda>r. pair_id (h r)"
  let ?p' = "p\<lparr>dateTime := now, list := list p ++ nameMap,
               pairs := uniquePairs h (pairs p @ pairList)\<rparr>"
  let ?s' = "s\<lparr>profiles := (profiles s)(current_key s \<mapsto> ?p')\<rparr>"
  have r: "reducer now h s (ListResetRows nameMap pairList) = (Inr ?s', h)"
    using k by (simp add: reducer_reset [OF p] spread_assign del: reducer.simps)
  have ck: "current_key ?s' = current_key s" by (simp add: current_key_def)
  have p': "profiles ?s' (current_key s) = Some ?p'" by simp
  have d: "distinct (map ?g (pairs ?p'))" by (simp add: uniquePairs_distinct)
  have a: "distinct (map ?g (pairs p)) \<longrightarrow>
             (\<exists>added. pairs ?p' = pairs p @ added \<and> set added \<subseteq> set pairList \<and>
                ?g ` set added \<inter> ?g ` set (pairs p) = {})"
  proof
    assume dp: "distinct (map ?g (pairs p))"
    let ?added = "first_by ?g (?g ` set (pairs p)) pairList"
    have "pairs ?p' = pairs p @ ?added" using dp by (simp add: uniquePairs_append)
    moreover have "set ?added \<subseteq> set pairList" by (rule first_by_subset)
    moreover have "?g ` set ?added \<inter> ?g ` set (pairs p) = {}"
      unfolding first_by_keys by blast
    ultimately show "\<exists>added. pairs ?p' = pairs p @ added \<and> set added \<subseteq> set pairList \<and>
                ?g ` set added \<inter> ?g ` set (pairs p) = {}"
      by blast
  qed
  have p'k: "profiles ?s' (current_key ?s') = Some ?p'" using ck p' by simp
  have "\<exists>s'' p''. reducer now' h ?s' (ListResetRows nameMap pairList) = (Inr s'', h) \<and>
          profiles s'' (current_key s) = Some p'' \<and> pairs p'' = pairs ?p'"
    unfolding reducer_reset [OF p'k] ck using k
    by (simp add: uniquePairs_again spread_assign del: reducer.simps)
  with r ck p' d a show ?thesis by blast
qed

text \<open>
  Claim C3, witness: resetting the rows A and D of the voted profile, twice.
\<close>

theorem reset_rows_pairs_witness:
  "\<exists>s' p'. reducer 5 pair_store (one_profile voted_ABC)
              (ListResetRows [''A'' \<mapsto> cand ''A'' 0, ''D'' \<mapsto> cand ''D'' 0] [3])
              = (Inr s', pair_store) \<and>
     profiles s' ''p'' = Some p' \<and>
     distinct (map (\<lambda>r. pair_id (pair_store r)) (pairs p')) \<and>
     (\<exists>s'' p''. reducer 6 pair_store s'
              (ListResetRows [''A'' \<mapsto> cand ''A'' 0, ''D'' \<mapsto> cand ''D'' 0] [3])
              = (Inr s'', pair_store) \<and>
        profiles s'' ''p'' = Some p'' \<and> pairs p'' = pairs p')"
proof -
  have p: "profiles (one_profile voted_ABC) (current_key (one_profile voted_ABC)) = Some voted_ABC"
    by (simp add: current_key_def)
  have k: "current_key (one_profile voted_ABC) \<noteq> ''__proto__''"
    by (simp add: current_key_def)
  have c: "current_key (one_profile voted_ABC) = ''p''" by (simp add: current_key_def)
  from reset_rows_pairs [OF p k, of 5 pair_store
      "[''A'' \<mapsto> cand ''A'' 0, ''D'' \<mapsto> cand ''D'' 0]" "[3]" 6]
  show ?thesis unfolding c by blast
qed

text \<open>
  Claim C3, counterexample to the claim as stated. The profile of A and B has the one
  pair of A and B; after the vote on it the queue is empty, and resetting the rows A and
  B with their pair puts the pair, which was voted, into the queue again.
\<close>

theorem reset_readds_voted_counterexample:
  "run pair_store
       (one_profile
          \<lparr>name = ''P'', list = [''A'' \<mapsto> cand ''A'' 0, ''B'' \<mapsto> cand ''B'' 0],
           dateTime = 1, pairs = [0], totalComparisons = 1\<rparr>)
       [(2, PairVote 0 ''A''),
        (3, ListResetRows [''A'' \<mapsto> cand ''A'' 0, ''B'' \<mapsto> cand ''B'' 0] [0])]
   = (Inr (one_profile
          \<lparr>name = ''P'', list = [''A'' \<mapsto> cand ''A'' 0, ''B'' \<mapsto> cand ''B'' 0],
           dateTime = 3, pairs = [0], totalComparisons = 1\<rparr>), pair_store)"
  by (simp add: truthy_at_def assign_map_def splice1_def uniquePairs_def filter_indexed_def
        findIndex_def round_double_exact fun_upd_twist)

text \<open>
  Claim C9, as amended. In a state with a current profile, under a key other than
  \<^verbatim>\<open>__proto__\<close>, a reset of rows removes no candidate: the keys of the mapping are the old
  keys and those of the rows of the action. A candidate whose id is not among the rows
  of the action keeps its record and its score; a candidate whose id is among them, new
  or not, gets the record of the action.
\<close>

theorem reset_rows_candidates:
  assumes p: "profiles s (current_key s) = Some p"
    and k: "current_key s \<noteq> ''__proto__''"
  shows "\<exists>p'. reducer now h s (ListResetRows nameMap pairList) =
             (Inr (s\<lparr>profiles := (profiles s)(current_key s \<mapsto> p')\<rparr>), h) \<and>
           dom (list p') = dom (list p) \<union> dom nameMap \<and>
           (\<forall>k. k \<notin> dom nameMap \<longrightarrow> list p' k = list p k) \<and>
           (\<forall>k \<in> dom nameMap. list p' k = nameMap k)"
proof -
  let ?p' = "p\<lparr>dateTime := now, list := list p ++ nameMap,
               pairs := uniquePairs h (pairs p @ pairList)\<rparr>"
  have "reducer now h s (ListResetRows nameMap pairList) =
          (Inr (s\<lparr>profiles := (profiles s)(current_key s \<mapsto> ?p')\<rparr>), h)"
    using k by (simp add: reducer_reset [OF p] spread_assign del: reducer.simps)
  moreover have "dom (list ?p') = dom (list p) \<union> dom nameMap" by auto
  moreover have "\<forall>k. k \<notin> dom nameMap \<longrightarrow> list ?p' k = list p k"
    by (simp add: map_add_dom_app_simps)
  moreover have "\<forall>k \<in> dom nameMap. list ?p' k = nameMap k"
    by (simp add: map_add_dom_app_simps)
  ultimately show ?thesis by (intro exI [of _ ?p']) simp
qed

text \<open>
  Claim C9, witness: resetting the row D of the voted profile adds D and leaves A its
  two points.
\<close>

theorem reset_rows_candidates_witness:
  "\<exists>p'. reducer 5 pair_store (one_profile voted_ABC)
            (ListResetRows [''D'' \<mapsto> cand ''D'' 0] [3]) = (Inr (one_profile p'), pair_store) \<and>
     list p' ''A'' = Some (cand ''A'' 2) \<and> list p' ''D'' = Some (cand ''D'' 0)"
proof -
  have p: "profiles (one_profile voted_ABC) (current_key (one_profile voted_ABC)) = Some voted_ABC"
    by (simp add: current_key_def)
  have k: "current_key (one_profile voted_ABC) \<noteq> ''__proto__''"
    by (simp add: current_key_def)
  from reset_rows_candidates [OF p k, of 5 pair_store "[''D'' \<mapsto> cand ''D'' 0]" "[3]"]
  obtain p' where
    r: "reducer 5 pair_store (one_profile voted_ABC) (ListResetRows [''D'' \<mapsto> cand ''D'' 0] [3]) =
          (Inr ((one_profile voted_ABC)\<lparr>profiles := (profiles (one_profile voted_ABC))
                 (current_key (one_profile voted_ABC) \<mapsto> p')\<rparr>), pair_store)"
    and o: "\<forall>k. k \<notin> dom [''D'' \<mapsto> cand ''D'' 0] \<longrightarrow> list p' k = list voted_ABC k"
    and n: "\<forall>k \<in> dom [''D'' \<mapsto> cand ''D'' 0]. list p' k = [''D'' \<mapsto> cand ''D'' 0] k"
    by blast
  from o have "list p' ''A'' = Some (cand ''A'' 2)" by simp
  moreover from n have "list p' ''D'' = Some (cand ''D'' 0)" by simp
  ultimately show ?thesis using r
    by (intro exI [of _ p']) (simp add: current_key_def del: reducer.simps)
qed

text \<open>
  Claim C9, counterexample to the claim as stated: A has two points in the voted
  profile, and resetting the rows A and D leaves A with the score 0 of the action.
\<close>

theorem reset_overwrites_score_counterexample:
  "list voted_ABC ''A'' = Some (cand ''A'' 2) \<and>
   reducer 5 pair_store (one_profile voted_ABC)
      (ListResetRows [''A'' \<mapsto> cand ''A'' 0, ''D'' \<mapsto> cand ''D'' 0] [3])
   = (Inr (one_profile
       \<lparr>name = ''P'',
        list = [''A'' \<mapsto> cand ''A'' 0, ''B'' \<mapsto> cand ''B'' 0, ''C'' \<mapsto> cand ''C'' 1,
                ''D'' \<mapsto> cand ''D'' 0],
        dateTime = 5, pairs = [3], totalComparisons = 3\<rparr>), pair_store)"
  by (simp add: truthy_at_def assign_map_def uniquePairs_def filter_indexed_def findIndex_def
        fun_upd_twist)

subsection \<open>Progress\<close>

lemma step_progress:
  assumes k: "keeps k a" and p: "profiles s k = Some p"
    and r: "reducer now h s a = (Inr s', h')"
  shows "\<exists>p'. profiles s' k = Some p' \<and> progress p \<le> progress p'"
proof (cases a)
  case (ProfileSetCurrent i)
  with r p show ?thesis by (auto split: if_splits)
next
  case (ProfileAdd newId nm nameMap pairList)
  with r p k show ?thesis by (auto simp: spread_assign)
next
  case (ListResetRows nameMap pairList)
  with k show ?thesis by simp
next
  case (PairSkip i)
  show ?thesis
  proof (cases rule: reducer_cases [of s])
    case none
    with r PairSkip show ?thesis by (simp del: reducer.simps add: reducer_no_profile)
  next
    case inh
    with r PairSkip show ?thesis by (simp del: reducer.simps add: reducer_inherited)
  next
    case (own q)
    from r show ?thesis
      unfolding PairSkip reducer_skip [OF own]
      using p own by (auto simp: progress_def spread_assign split: if_splits)
  qed
next
  case (PairVote i w)
  show ?thesis
  proof (cases rule: reducer_cases [of s])
    case none
    with r PairVote show ?thesis by (simp del: reducer.simps add: reducer_no_profile)
  next
    case inh
    with r PairVote show ?thesis by (simp del: reducer.simps add: reducer_inherited)
  next
    case (own q)
    from r show ?thesis
      unfolding PairVote reducer_vote [OF own]
      using p own splice1_length [of "pairs q" i]
      by (auto simp: progress_def spread_assign split: if_splits)
  qed
next
  case (Other t)
  with r p show ?thesis by auto
qed

lemma dispatch_progress:
  assumes k: "keeps k a" and p: "profiles s k = Some p"
  shows "\<exists>p'. profiles (snd (dispatch now (h, s) a)) k = Some p' \<and> progress p \<le> progress p'"
proof (cases "reducer now h s a")
  case (Pair res h')
  show ?thesis
  proof (cases res)
    case (Inl e)
    with Pair p show ?thesis by simp
  next
    case (Inr s')
    with Pair step_progress [OF k p, of now h s' h'] show ?thesis by simp
  qed
qed

text \<open>
  Claim C4, as amended. For every profile \<open>k\<close> of a state and every sequence of actions
  none of which resets rows or adds a profile under the key \<open>k\<close> itself, \<open>k\<close> is still a
  profile after the sequence is dispatched, and its progress, the total of comparisons
  minus the pending pairs, is at least what it was. With a sequence of one action this is
  the step from one state to the next.
\<close>

theorem progress_monotone:
  "list_all (\<lambda>(now, a). keeps k a) acts \<Longrightarrow> profiles s k = Some p \<Longrightarrow>
   \<exists>p'. profiles (snd (dispatch_all (h, s) acts)) k = Some p' \<and> progress p \<le> progress p'"
proof (induction acts arbitrary: h s p)
  case Nil
  then show ?case by auto
next
  case (Cons x acts)
  obtain now a where x: "x = (now, a)" by (cases x)
  from Cons.prems x have k: "keeps k a" and ks: "list_all (\<lambda>(now, a). keeps k a) acts" by auto
  obtain h1 s1 where d: "dispatch now (h, s) a = (h1, s1)" by (cases "dispatch now (h, s) a")
  from dispatch_progress [OF k Cons.prems(2), of now h] d
  obtain p1 where p1: "profiles s1 k = Some p1" and le: "progress p \<le> progress p1"
    by auto
  from Cons.IH [OF ks p1, of h1] le x d show ?case by force
qed

text \<open>
  Claim C4, witness: three votes and a skip that is rejected, as the queue is empty by
  then, take the progress of the example profile from 0 to 3.
\<close>

theorem progress_monotone_witness:
  "dispatch_all (pair_store, one_profile fresh_ABC)
     [(2, PairVote 0 ''A''), (3, PairVote 0 ''A''), (4, PairVote 0 ''C''), (5, PairSkip 0)]
     = (pair_store, one_profile voted_ABC) \<and>
   progress fresh_ABC = 0 \<and>
   (\<exists>p'. profiles (one_profile voted_ABC) ''p'' = Some p' \<and> progress fresh_ABC \<le> progress p')"
proof -
  have d: "dispatch_all (pair_store, one_profile fresh_ABC)
     [(2, PairVote 0 ''A''), (3, PairVote 0 ''A''), (4, PairVote 0 ''C''), (5, PairSkip 0)]
     = (pair_store, one_profile voted_ABC)"
    by (simp add: truthy_at_def assign_map_def splice1_def round_double_exact fun_upd_twist)
  show ?thesis
    using progress_monotone [of "''p''"
       "[(2, PairVote 0 ''A''), (3, PairVote 0 ''A''), (4, PairVote 0 ''C''), (5, PairSkip 0)]"
       "one_profile fresh_ABC" fresh_ABC pair_store]
    unfolding d by (simp add: progress_def)
qed

text \<open>
  Claim C4, counterexample to the claim as stated. The voted profile has the progress 3.
  Resetting the rows A and D appends a pair and leaves the total, so the progress is 2;
  adding a profile under the same key replaces the profile by one with the progress 0.
\<close>

theorem progress_decreases_counterexample:
  "reducer 5 pair_store (one_profile voted_ABC)
      (ListResetRows [''A'' \<mapsto> cand ''A'' 0, ''D'' \<mapsto> cand ''D'' 0] [3])
   = (Inr (one_profile
       \<lparr>name = ''P'',
        list = [''A'' \<mapsto> cand ''A'' 0, ''B'' \<mapsto> cand ''B'' 0, ''C'' \<mapsto> cand ''C'' 1,
                ''D'' \<mapsto> cand ''D'' 0],
        dateTime = 5, pairs = [3], totalComparisons = 3\<rparr>), pair_store) \<and>
   progress voted_ABC = 3 \<and>
   progress \<lparr>name = ''P'',
        list = [''A'' \<mapsto> cand ''A'' 0, ''B'' \<mapsto> cand ''B'' 0, ''C'' \<mapsto> cand ''C'' 1,
                ''D'' \<mapsto> cand ''D'' 0],
        dateTime = 5, pairs = [3], totalComparisons = 3\<rparr> = 2 \<and>
   reducer 5 pair_store (one_profile voted_ABC)
      (ProfileAdd ''p'' ''Q'' [''A'' \<mapsto> cand ''A'' 0, ''D'' \<mapsto> cand ''D'' 0] [3])
   = (Inr (one_profile
       \<lparr>name = ''Q'', list = [''A'' \<mapsto> cand ''A'' 0, ''D'' \<mapsto> cand ''D'' 0],
        dateTime = 5, pairs = [3], totalComparisons = 1\<rparr>), pair_store) \<and>
   progress \<lparr>name = ''Q'', list = [''A'' \<mapsto> cand ''A'' 0, ''D'' \<mapsto> cand ''D'' 0],
        dateTime = 5, pairs = [3], totalComparisons = 1\<rparr> = 0"
  by (simp add: progress_def truthy_at_def assign_map_def uniquePairs_def filter_indexed_def
        findIndex_def fun_upd_twist)

end
